theory Spec2Isabelle
  imports Complex_Main "HOL-Library.Word"
begin

section \<open>Numbers of the attitude module\<close>

text \<open>
  The module \<^verbatim>\<open>flight/Modules/Attitude/revolution/attitude.c\<close> computes in C
  \<^verbatim>\<open>float\<close>. A value of that type is modelled as a real number or as NaN, the
  one special value the code tests for (\<^verbatim>\<open>mag.x == mag.x\<close>,
  \<^verbatim>\<open>qmag != qmag\<close>). Arithmetic propagates NaN, a comparison with NaN is
  false, and \<^verbatim>\<open>==\<close> is \<open>feq\<close>, which NaN does not satisfy. Rounding and the
  infinities are left out: every finite operation is exact, and a division by zero gives NaN.
\<close>

datatype float = Fin real | NaN

instantiation float :: "{zero,numeral,power,minus,uminus,inverse,ord}"
begin

definition zero_float :: float where
  "zero_float = Fin 0"

definition one_float :: float where
  "one_float = Fin 1"

definition plus_float :: "float \<Rightarrow> float \<Rightarrow> float" where
  "plus_float a b = (case a of Fin x \<Rightarrow> (case b of Fin y \<Rightarrow> Fin (x + y) | NaN \<Rightarrow> NaN) | NaN \<Rightarrow> NaN)"

definition minus_float :: "float \<Rightarrow> float \<Rightarrow> float" where
  "minus_float a b = (case a of Fin x \<Rightarrow> (case b of Fin y \<Rightarrow> Fin (x - y) | NaN \<Rightarrow> NaN) | NaN \<Rightarrow> NaN)"

definition uminus_float :: "float \<Rightarrow> float" where
  "uminus_float a = (case a of Fin x \<Rightarrow> Fin (- x) | NaN \<Rightarrow> NaN)"

definition times_float :: "float \<Rightarrow> float \<Rightarrow> float" where
  "times_float a b = (case a of Fin x \<Rightarrow> (case b of Fin y \<Rightarrow> Fin (x * y) | NaN \<Rightarrow> NaN) | NaN \<Rightarrow> NaN)"

definition divide_float :: "float \<Rightarrow> float \<Rightarrow> float" where
  "divide_float a b =
     (case a of Fin x \<Rightarrow> (case b of Fin y \<Rightarrow> (if y = 0 then NaN else Fin (x / y)) | NaN \<Rightarrow> NaN)
      | NaN \<Rightarrow> NaN)"

definition inverse_float :: "float \<Rightarrow> float" where
  "inverse_float a = (case a of Fin x \<Rightarrow> (if x = 0 then NaN else Fin (inverse x)) | NaN \<Rightarrow> NaN)"

definition less_float :: "float \<Rightarrow> float \<Rightarrow> bool" where
  "less_float a b = (case a of Fin x \<Rightarrow> (case b of Fin y \<Rightarrow> x < y | NaN \<Rightarrow> False) | NaN \<Rightarrow> False)"

definition less_eq_float :: "float \<Rightarrow> float \<Rightarrow> bool" where
  "less_eq_float a b = (case a of Fin x \<Rightarrow> (case b of Fin y \<Rightarrow> x \<le> y | NaN \<Rightarrow> False) | NaN \<Rightarrow> False)"

instance
proof
  fix a b c :: float
  show "a + b + c = a + (b + c)"
    by (simp add: plus_float_def split: float.splits)
qed

end

text \<open>The C comparison \<^verbatim>\<open>a == b\<close> on floats.\<close>

definition feq :: "float \<Rightarrow> float \<Rightarrow> bool" where
  "feq a b = (case a of Fin x \<Rightarrow> (case b of Fin y \<Rightarrow> x = y | NaN \<Rightarrow> False) | NaN \<Rightarrow> False)"

definition sqrtf :: "float \<Rightarrow> float" where
  "sqrtf a = (case a of Fin x \<Rightarrow> (if x < 0 then NaN else Fin (sqrt x)) | NaN \<Rightarrow> NaN)"

definition fabs :: "float \<Rightarrow> float" where
  "fabs a = (case a of Fin x \<Rightarrow> Fin \<bar>x\<bar> | NaN \<Rightarrow> NaN)"

definition cosf :: "float \<Rightarrow> float" where
  "cosf a = (case a of Fin x \<Rightarrow> Fin (cos x) | NaN \<Rightarrow> NaN)"

definition expf :: "float \<Rightarrow> float" where
  "expf a = (case a of Fin x \<Rightarrow> Fin (exp x) | NaN \<Rightarrow> NaN)"

text \<open>Conversions of the integer types to \<^verbatim>\<open>float\<close>.\<close>

definition float_of_uint32 :: "32 word \<Rightarrow> float" where
  "float_of_uint32 n = Fin (real (unat n))"

definition float_of_int32 :: "32 word \<Rightarrow> float" where
  "float_of_int32 n = Fin (real_of_int (sint n))"

definition float_of_bool :: "bool \<Rightarrow> float" where
  "float_of_bool b = (if b then 1 else 0)"

type_synonym vec3 = "float \<times> float \<times> float"
type_synonym quat = "float \<times> float \<times> float \<times> float"

definition F_PI :: float where
  "F_PI = Fin 3.14159265358979323846"

definition DEG2RAD :: float where
  "DEG2RAD = Fin 3.141592653589793 / Fin 180"

section \<open>Data of the module\<close>

text \<open>
  The data objects the module reads and writes. Three-component objects (gyros, accels,
  magnetometer, gyro bias with fields x, y, z; NED position, actual position, actual and GPS
  velocity with fields North, East, Down) and the C arrays \<^verbatim>\<open>float[3]\<close> are
  triples, a quaternion \<^verbatim>\<open>float[4]\<close> is a 4-tuple.
\<close>

record AttitudeActualData =
  q1 :: float
  q2 :: float
  q3 :: float
  q4 :: float
  Roll :: float
  Pitch :: float
  Yaw :: float

record AttitudeSettingsData =
  AccelKp :: float
  AccelKi :: float
  YawBiasRate :: float
  MagKp :: float
  AccelTau :: float
  ZeroDuringArming :: bool
  BiasCorrectGyro :: bool

record HomeLocationData =
  Set :: bool
  Latitude :: "32 word"
  Longitude :: "32 word"
  Altitude :: float
  Be :: vec3

record GPSPositionData =
  Latitude :: "32 word"
  Longitude :: "32 word"
  Altitude :: float
  GeoidSeparation :: float
  Satellites :: int
  PDOP :: float
  Groundspeed :: float
  Heading :: float

record INSSettingsData =
  accel_var :: vec3
  gyro_var :: vec3
  mag_var :: vec3
  gps_var :: "float \<times> float"
  baro_var :: float

datatype FusionAlgorithm =
  REVOSETTINGS_FUSIONALGORITHM_COMPLEMENTARY
  | REVOSETTINGS_FUSIONALGORITHM_INSOUTDOOR
  | REVOSETTINGS_FUSIONALGORITHM_INSINDOOR
  | REVOSETTINGS_FUSIONALGORITHM_unrecognised

datatype Armed = FLIGHTSTATUS_ARMED_DISARMED | FLIGHTSTATUS_ARMED_ARMING | FLIGHTSTATUS_ARMED_ARMED

datatype alarm =
  SYSTEMALARMS_ALARM_OK
  | SYSTEMALARMS_ALARM_WARNING
  | SYSTEMALARMS_ALARM_ERROR
  | SYSTEMALARMS_ALARM_CRITICAL

datatype complimentary_filter_status = CF_POWERON | CF_INITIALIZING | CF_ARMING | CF_NORMAL

record gyro_bias_estimation =
  accumulated_gyro :: vec3
  accumulated_gyro_samples :: "32 word"
  accumulating_gyro :: bool

text \<open>
  The INS library (\<^verbatim>\<open>insgps.h\<close>) is not part of the module. Its functions do
  not return values to the module, so a call is recorded with its arguments, in the order
  the module makes them; what the module reads back through the \<^verbatim>\<open>Nav\<close>
  pointer is an input of the cycle. The sensor mask \<^verbatim>\<open>uint16_t sensors\<close> is kept as the
  set of the named masks that were or-ed into it.
\<close>

datatype sensor_mask =
  MAG_SENSORS | BARO_SENSOR | POS_SENSORS | HORIZ_SENSORS | VERT_SENSORS | HORIZ_POS_SENSORS

datatype ins_call =
  INSGPSInit
  | INSSetMagVar vec3
  | INSSetAccelVar vec3
  | INSSetGyroVar vec3
  | INSSetBaroVar float
  | INSSetGyroBias vec3
  | INSSetMagNorth vec3
  | INSSetPosVelVar float float
  | INSSetState vec3 vec3 quat vec3 vec3
  | INSResetP "float list"
  | INSStatePrediction vec3 vec3 float
  | INSCovariancePrediction float
  | INSCorrection vec3 vec3 vec3 float "sensor_mask set"

text \<open>
  The state: the objects the module publishes, the attitude alarm, the file-scope variables
  and the \<^verbatim>\<open>static\<close> locals of the two update functions.
\<close>

record state =
  AttitudeActual :: AttitudeActualData
  GyrosBias :: vec3
  NEDPosition :: vec3
  PositionActual :: vec3
  VelocityActual :: vec3
  AttitudeAlarm :: alarm
  attitudeSettings :: AttitudeSettingsData
  homeLocation :: HomeLocationData
  insSettings :: INSSettingsData
  revoSettings :: FusionAlgorithm
  gyroBiasSettingsUpdated :: bool
  accel_filter_enabled :: bool
  accel_alpha :: float
  gyro_bias_est :: gyro_bias_estimation
  accel_mag :: float
  qmag :: float
  mag_err :: vec3
  T :: vec3
  timeval :: "32 word"
  accels_filtered :: vec3
  grot_filtered :: vec3
  arming_count :: "32 word"
  cf_status :: complimentary_filter_status
  mag_updated :: bool
  baro_updated :: bool
  gps_updated :: bool
  gps_vel_updated :: bool
  baroOffset :: float
  ins_last_time :: "32 word"
  inited :: bool
  init_stage :: "32 word"

text \<open>
  The objects whose change calls \<^verbatim>\<open>settingsUpdatedCb\<close>. The event pointer of the
  callback may be \<^verbatim>\<open>NULL\<close> (\<open>None\<close>); otherwise it names the object that changed.
\<close>

datatype uavobj =
  InertialSensorSettingsHandle | INSSettingsHandle | HomeLocationHandle
  | AttitudeSettingsHandle | RevoSettingsHandle | OtherHandle

text \<open>
  The settings objects, as the callback and \<^verbatim>\<open>AttitudeSettingsGet\<close> read them.
\<close>

record settings_objects =
  InertialSensorSettings_InitialGyroBias :: vec3
  INSSettings :: INSSettingsData
  HomeLocation :: HomeLocationData
  AttitudeSettings :: AttitudeSettingsData
  RevoSettings_FusionAlgorithm :: FusionAlgorithm

text \<open>
  What one cycle takes from outside: whether each \<^verbatim>\<open>xQueueReceive\<close> returned
  \<^verbatim>\<open>pdTRUE\<close>, the current value of each sensor object, the clocks, and the
  \<^verbatim>\<open>Nav\<close> structure of the INS library as the module reads it in this cycle.
  The settings callback runs in another thread context than the loop: \<open>callback_event\<close>
  is \<open>Some ev\<close> when a call of \<^verbatim>\<open>settingsUpdatedCb\<close> with the event
  \<open>ev\<close> lands during the calculation of an initialised navigation-filter cycle, and
  \<open>None\<close> when none does.
\<close>

record cycle_in =
  gyro_rx :: bool
  accel_rx :: bool
  mag_rx :: bool
  baro_rx :: bool
  gps_rx :: bool
  gpsVel_rx :: bool
  AttitudeActualReadOnly :: bool
  Gyros :: vec3
  Accels :: vec3
  Magnetometer :: vec3
  Magnetometer_after_wait :: vec3
  BaroAltitude :: float
  GPSPosition :: GPSPositionData
  GPSVelocity :: vec3
  mag_sensor_registered :: bool
  FlightStatus_Armed :: Armed
  objects :: settings_objects
  xTaskGetTickCount :: "32 word"
  PIOS_DELAY_DiffuS :: "32 word"
  PIOS_DELAY_GetRaw :: "32 word"
  INSGPSGetNav_null :: bool
  Nav_q :: quat
  Nav_Pos :: vec3
  Nav_Vel :: vec3
  Nav_gyro_bias :: vec3
  callback_event :: "uavobj option option"

text \<open>
  The functions of \<^verbatim>\<open>CoordinateConversions.h\<close> and \<^verbatim>\<open>atan2f\<close> are
  taken as parameters.
\<close>

record coordinate_conversions =
  atan2f :: "float \<Rightarrow> float \<Rightarrow> float"
  RPY2Quaternion :: "vec3 \<Rightarrow> quat"
  Quaternion2RPY :: "quat \<Rightarrow> vec3"
  Quaternion2R :: "quat \<Rightarrow> vec3 \<times> vec3 \<times> vec3"
  rot_mult :: "vec3 \<times> vec3 \<times> vec3 \<Rightarrow> vec3 \<Rightarrow> bool \<Rightarrow> vec3"

text \<open>
  Modelled from the spec: \<^verbatim>\<open>CrossProduct\<close> of the coordinate conversion
  library, which is not in the sources; the spec calls it the cross product of its two
  arguments.
\<close>

definition CrossProduct :: "vec3 \<Rightarrow> vec3 \<Rightarrow> vec3" where
  "CrossProduct v1 v2 =
     (case v1 of (a0, a1, a2) \<Rightarrow> case v2 of (b0, b1, b2) \<Rightarrow>
        (a1 * b2 - a2 * b1, a2 * b0 - a0 * b2, a0 * b1 - a1 * b0))"

definition magKi :: float where
  "magKi = 0.000001"

section \<open>Gyro bias accumulator\<close>

definition accumulate_gyro_zero :: "state \<Rightarrow> state" where
  "accumulate_gyro_zero s =
     s\<lparr>gyro_bias_est := (gyro_bias_est s)
          \<lparr>accumulated_gyro_samples := 0, accumulated_gyro := (0, 0, 0)\<rparr>\<rparr>"

definition accumulate_gyro_compute :: "state \<Rightarrow> state" where
  "accumulate_gyro_compute s =
     (if accumulating_gyro (gyro_bias_est s) \<and> 100 < accumulated_gyro_samples (gyro_bias_est s)
      then
        (case accumulated_gyro (gyro_bias_est s) of (a0, a1, a2) \<Rightarrow>
           let n = float_of_uint32 (accumulated_gyro_samples (gyro_bias_est s));
               s1 = s\<lparr>GyrosBias := (a0 / n, a1 / n, a2 / n)\<rparr>;
               s2 = accumulate_gyro_zero s1
           in s2\<lparr>gyro_bias_est := (gyro_bias_est s2)\<lparr>accumulating_gyro := False\<rparr>\<rparr>)
      else s)"

definition accumulate_gyro :: "vec3 \<Rightarrow> state \<Rightarrow> state" where
  "accumulate_gyro gyrosData s =
     (if \<not> accumulating_gyro (gyro_bias_est s) then s
      else
        (case gyrosData of (gx, gy, gz) \<Rightarrow>
         case accumulated_gyro (gyro_bias_est s) of (a0, a1, a2) \<Rightarrow>
           let n = accumulated_gyro_samples (gyro_bias_est s) + 1 in
           if True then
             (case GyrosBias s of (bx, by, bz) \<Rightarrow>
                s\<lparr>gyro_bias_est := (gyro_bias_est s)
                     \<lparr>accumulated_gyro_samples := n,
                      accumulated_gyro := (a0 + (gx + bx), a1 + (gy + by), a2 + (gz + bz))\<rparr>\<rparr>)
           else
             s\<lparr>gyro_bias_est := (gyro_bias_est s)
                  \<lparr>accumulated_gyro_samples := n,
                   accumulated_gyro := (a0 + gx, a1 + gy, a2 + gz)\<rparr>\<rparr>))"

section \<open>Coordinate module\<close>

definition getNED :: "GPSPositionData \<Rightarrow> state \<Rightarrow> vec3" where
  "getNED gpsPosition s =
     (case T s of (T0, T1, T2) \<Rightarrow>
        let dL0 = float_of_int32 (GPSPositionData.Latitude gpsPosition
                    - HomeLocationData.Latitude (homeLocation s)) / 10000000 * DEG2RAD;
            dL1 = float_of_int32 (GPSPositionData.Longitude gpsPosition
                    - HomeLocationData.Longitude (homeLocation s)) / 10000000 * DEG2RAD;
            dL2 = GPSPositionData.Altitude gpsPosition + GeoidSeparation gpsPosition
                    - HomeLocationData.Altitude (homeLocation s)
        in (T0 * dL0, T1 * dL1, T2 * dL2))"

section \<open>Complementary filter\<close>

definition apply_accel_filter :: "state \<Rightarrow> vec3 \<Rightarrow> vec3 \<Rightarrow> vec3" where
  "apply_accel_filter s raw filtered =
     (case raw of (r0, r1, r2) \<Rightarrow> case filtered of (f0, f1, f2) \<Rightarrow>
        if accel_filter_enabled s then
          (f0 * accel_alpha s + r0 * (1 - accel_alpha s),
           f1 * accel_alpha s + r1 * (1 - accel_alpha s),
           f2 * accel_alpha s + r2 * (1 - accel_alpha s))
        else (r0, r1, r2))"

text \<open>The first-run branch: the quaternion is seeded from the accelerometer and magnetometer.\<close>

definition cf_first_run :: "coordinate_conversions \<Rightarrow> cycle_in \<Rightarrow> state \<Rightarrow> int \<times> state" where
  "cf_first_run lib i s =
     (if mag_sensor_registered i \<and> \<not> mag_rx i then (- 1, s)
      else
        (case Accels i of (ax, ay, az) \<Rightarrow>
         case (if mag_sensor_registered i then Magnetometer i else (100, 0, 0)) of (mx, my, mz) \<Rightarrow>
           let roll = atan2f lib (- ay) (- az) * 180 / F_PI;
               pitch = atan2f lib ax (- az) * 180 / F_PI;
               yaw = atan2f lib (- my) mx * 180 / F_PI
           in (case RPY2Quaternion lib (roll, pitch, yaw) of (qa, qb, qc, qd) \<Rightarrow>
                 (0, s\<lparr>AttitudeActual :=
                          \<lparr>q1 = qa, q2 = qb, q3 = qc, q4 = qd, Roll = roll, Pitch = pitch, Yaw = yaw\<rparr>,
                        cf_status := CF_POWERON,
                        timeval := PIOS_DELAY_GetRaw i,
                        arming_count := 0\<rparr>))))"

text \<open>The status machine that runs at the head of every later cycle.\<close>

definition cf_fast_gains :: "AttitudeSettingsData \<Rightarrow> AttitudeSettingsData" where
  "cf_fast_gains a = a\<lparr>AccelKi := 0.1, YawBiasRate := 0.1, MagKp := 0.1\<rparr>"

definition cf_update_status :: "cycle_in \<Rightarrow> state \<Rightarrow> state" where
  "cf_update_status i s =
     (let tick = xTaskGetTickCount i in
      if cf_status s = CF_POWERON then
        s\<lparr>cf_status := (if 1000 < tick then CF_INITIALIZING else CF_POWERON)\<rparr>
      else if cf_status s = CF_INITIALIZING \<and> tick < 7000 \<and> 1000 < tick then
        s\<lparr>attitudeSettings := cf_fast_gains
             ((attitudeSettings s)\<lparr>AccelKp := 0.1 + 0.1 * float_of_bool (tick < 4000)\<rparr>)\<rparr>
      else if ZeroDuringArming (attitudeSettings s) \<and> FlightStatus_Armed i = FLIGHTSTATUS_ARMED_ARMING then
        let kp = (if arming_count s < 20 then 1
                  else if 0.1 < AccelKp (attitudeSettings s) then AccelKp (attitudeSettings s) - 0.01
                  else AccelKp (attitudeSettings s));
            s1 = s\<lparr>attitudeSettings := cf_fast_gains ((attitudeSettings s)\<lparr>AccelKp := kp\<rparr>),
                   arming_count := arming_count s + 1,
                   accel_filter_enabled := False\<rparr>
        in if cf_status s1 \<noteq> CF_ARMING then
             (let s2 = accumulate_gyro_zero s1 in
              s2\<lparr>cf_status := CF_ARMING,
                 gyro_bias_est := (gyro_bias_est s2)\<lparr>accumulating_gyro := True\<rparr>\<rparr>)
           else s1
      else if cf_status s = CF_ARMING \<or> cf_status s = CF_INITIALIZING then
        let s1 = s\<lparr>attitudeSettings := AttitudeSettings (objects i)\<rparr>;
            s2 = (if 0 < accel_alpha s1 then s1\<lparr>accel_filter_enabled := True\<rparr> else s1);
            s3 = (if cf_status s2 = CF_ARMING then
                    (let s4 = accumulate_gyro_compute s2 in
                     s4\<lparr>gyro_bias_est := (gyro_bias_est s4)\<lparr>accumulating_gyro := False\<rparr>,
                        arming_count := 0\<rparr>)
                  else s2)
        in s3\<lparr>cf_status := CF_NORMAL\<rparr>
      else s)"

text \<open>The accelerometer error: smoothed acceleration crossed with smoothed rotated gravity.\<close>

definition cf_grot :: "quat \<Rightarrow> vec3" where
  "cf_grot q =
     (case q of (qa, qb, qc, qd) \<Rightarrow>
        (- (2 * (qb * qd - qa * qc)),
         - (2 * (qc * qd + qa * qb)),
         - (qa * qa - qb * qb - qc * qc + qd * qd)))"

definition vec_norm :: "vec3 \<Rightarrow> float" where
  "vec_norm v = (case v of (a, b, c) \<Rightarrow> sqrtf (a * a + b * b + c * c))"

definition vec_div :: "vec3 \<Rightarrow> float \<Rightarrow> vec3" where
  "vec_div v d = (case v of (a, b, c) \<Rightarrow> (a / d, b / d, c / d))"

definition cf_accel_err :: "state \<Rightarrow> vec3" where
  "cf_accel_err s =
     (let accel_err = CrossProduct (accels_filtered s) (grot_filtered s);
          grot_mag = (if accel_filter_enabled s then vec_norm (grot_filtered s) else 1)
      in if 0.001 < grot_mag \<and> 0.001 < accel_mag s
         then vec_div accel_err (accel_mag s * grot_mag)
         else (0, 0, 0))"

text \<open>
  The magnetometer error. The branch is taken when the receive on the magnetometer queue
  did not return \<^verbatim>\<open>pdTRUE\<close>; inside it, a sample with NaN or an unset home
  location leaves \<^verbatim>\<open>mag_err\<close> as it was.
\<close>

definition cf_mag_err :: "coordinate_conversions \<Rightarrow> cycle_in \<Rightarrow> quat \<Rightarrow> state \<Rightarrow> vec3" where
  "cf_mag_err lib i q s =
     (if \<not> mag_rx i then
        (let Rbe = Quaternion2R lib q in
         case Magnetometer i of (mx, my, mz) \<Rightarrow>
           if feq mx mx \<and> feq my my \<and> feq mz mz \<and> Set (homeLocation s) then
             let brot = rot_mult lib Rbe (Be (homeLocation s)) False;
                 mag_len = vec_norm (mx, my, mz);
                 mag = vec_div (mx, my, mz) mag_len;
                 bmag = vec_norm brot;
                 brot1 = vec_div brot bmag
             in if bmag < 1 \<or> mag_len < 1 then (0, 0, 0) else CrossProduct mag brot1
           else mag_err s)
      else (0, 0, 0))"

text \<open>
  The sign flip, the renormalisation and the reset to the identity when the norm is below
  0.001 or NaN. The result is \<^verbatim>\<open>qmag\<close> and the quaternion.
\<close>

definition cf_renormalize :: "quat \<Rightarrow> float \<times> quat" where
  "cf_renormalize q =
     (case q of (a, b, c, d) \<Rightarrow>
        let flip = (a < 0);
            a1 = (if flip then - a else a); b1 = (if flip then - b else b);
            c1 = (if flip then - c else c); d1 = (if flip then - d else d);
            m = sqrtf (a1 * a1 + b1 * b1 + c1 * c1 + d1 * d1)
        in if fabs m < 0.001 \<or> \<not> feq m m then (m, (1, 0, 0, 0))
           else (m, (a1 / m, b1 / m, c1 / m, d1 / m)))"

text \<open>One time step of the quaternion with the corrected rates, in deg/s.\<close>

definition cf_integrate :: "quat \<Rightarrow> vec3 \<Rightarrow> float \<Rightarrow> float \<times> quat" where
  "cf_integrate q gyrosData dT =
     (case q of (qa, qb, qc, qd) \<Rightarrow> case gyrosData of (gx, gy, gz) \<Rightarrow>
        let qdot0 = (- qb * gx - qc * gy - qd * gz) * dT * F_PI / 180 / 2;
            qdot1 = (qa * gx - qd * gy + qc * gz) * dT * F_PI / 180 / 2;
            qdot2 = (qd * gx + qa * gy - qb * gz) * dT * F_PI / 180 / 2;
            qdot3 = (- qc * gx + qb * gy + qa * gz) * dT * F_PI / 180 / 2
        in cf_renormalize (qa + qdot0, qb + qdot1, qc + qdot2, qd + qdot3))"

text \<open>
  The head of a later cycle: status machine, accumulation of the gyro sample, the time
  stamp, and the low-pass filters on the acceleration and on the rotated gravity.
\<close>

definition attitude_quat :: "AttitudeActualData \<Rightarrow> quat" where
  "attitude_quat a = (q1 a, q2 a, q3 a, q4 a)"

definition cf_filter_inputs :: "cycle_in \<Rightarrow> state \<Rightarrow> state" where
  "cf_filter_inputs i s =
     (let s1 = cf_update_status i s;
          s2 = accumulate_gyro (Gyros i) s1;
          s3 = s2\<lparr>timeval := PIOS_DELAY_GetRaw i\<rparr>;
          s4 = s3\<lparr>accels_filtered := apply_accel_filter s3 (Accels i) (accels_filtered s3)\<rparr>;
          grot = cf_grot (attitude_quat (AttitudeActual s4));
          s5 = s4\<lparr>grot_filtered := apply_accel_filter s4 grot (grot_filtered s4)\<rparr>
      in s5\<lparr>accel_mag := vec_norm (accels_filtered s5)\<rparr>)"

text \<open>The integral term goes into the published gyro bias, the proportional term into the rates.\<close>

definition cf_bias_update :: "vec3 \<Rightarrow> state \<Rightarrow> vec3" where
  "cf_bias_update accel_err s =
     (case accel_err of (ae0, ae1, ae2) \<Rightarrow> case mag_err s of (me0, me1, me2) \<Rightarrow>
      case GyrosBias s of (bx, by, bz) \<Rightarrow>
        (bx - ae0 * AccelKi (attitudeSettings s), by - ae1 * AccelKi (attitudeSettings s),
         bz - me2 * magKi))"

definition cf_corrected_gyros :: "cycle_in \<Rightarrow> float \<Rightarrow> vec3 \<Rightarrow> state \<Rightarrow> vec3" where
  "cf_corrected_gyros i dT accel_err s =
     (case accel_err of (ae0, ae1, ae2) \<Rightarrow> case mag_err s of (me0, me1, me2) \<Rightarrow>
      case Gyros i of (gx, gy, gz) \<Rightarrow>
        (gx + ae0 * AccelKp (attitudeSettings s) / dT,
         gy + ae1 * AccelKp (attitudeSettings s) / dT,
         gz + ae2 * AccelKp (attitudeSettings s) / dT + me2 * MagKp (attitudeSettings s) / dT))"

definition cf_attitude :: "coordinate_conversions \<Rightarrow> quat \<Rightarrow> AttitudeActualData \<Rightarrow> AttitudeActualData" where
  "cf_attitude lib q a =
     (case q of (qa, qb, qc, qd) \<Rightarrow> case Quaternion2RPY lib (qa, qb, qc, qd) of (roll, pitch, yaw) \<Rightarrow>
        a\<lparr>q1 := qa, q2 := qb, q3 := qc, q4 := qd, Roll := roll, Pitch := pitch, Yaw := yaw\<rparr>)"

text \<open>The GPS position and velocity are republished when they arrived in this cycle.\<close>

definition cf_passthrough :: "cycle_in \<Rightarrow> state \<Rightarrow> state" where
  "cf_passthrough i s =
     (let s1 = (if gps_rx i \<and> Set (homeLocation s) then
                  (let NED = getNED (GPSPosition i) s in
                   s\<lparr>NEDPosition := NED, PositionActual := NED\<rparr>)
                else s)
      in if gpsVel_rx i then s1\<lparr>VelocityActual := GPSVelocity i\<rparr> else s1)"

definition cf_update :: "coordinate_conversions \<Rightarrow> cycle_in \<Rightarrow> state \<Rightarrow> int \<times> state" where
  "cf_update lib i s =
     (let s6 = cf_filter_inputs i s;
          dT = float_of_uint32 (PIOS_DELAY_DiffuS i) / 1000000;
          q = attitude_quat (AttitudeActual s6);
          accel_err = cf_accel_err s6;
          s7 = s6\<lparr>mag_err := cf_mag_err lib i q s6\<rparr>;
          s8 = s7\<lparr>GyrosBias := cf_bias_update accel_err s7\<rparr>;
          gyros1 = cf_corrected_gyros i dT accel_err s8
      in case cf_integrate q gyros1 dT of (m, qn) \<Rightarrow>
           let s9 = s8\<lparr>qmag := m, AttitudeActual := cf_attitude lib qn (AttitudeActual s8)\<rparr>;
               s10 = cf_passthrough i s9
           in (0, s10\<lparr>AttitudeAlarm := SYSTEMALARMS_ALARM_OK\<rparr>))"

definition updateAttitudeComplementary ::
  "coordinate_conversions \<Rightarrow> bool \<Rightarrow> cycle_in \<Rightarrow> state \<Rightarrow> int \<times> state" where
  "updateAttitudeComplementary lib first_run i s =
     (if (\<not> gyro_rx i \<or> \<not> accel_rx i) \<and> \<not> AttitudeActualReadOnly i
      then (- 1, s\<lparr>AttitudeAlarm := SYSTEMALARMS_ALARM_WARNING\<rparr>)
      else if first_run then cf_first_run lib i s
      else cf_update lib i s)"

section \<open>Settings callback\<close>

definition ins_set_vars :: "state \<Rightarrow> ins_call list" where
  "ins_set_vars s =
     [INSSetMagVar (mag_var (insSettings s)), INSSetAccelVar (accel_var (insSettings s)),
      INSSetGyroVar (gyro_var (insSettings s)), INSSetBaroVar (baro_var (insSettings s))]"

definition settingsUpdatedCb ::
  "uavobj option \<Rightarrow> settings_objects \<Rightarrow> state \<Rightarrow> ins_call list \<times> state" where
  "settingsUpdatedCb ev obj s =
     (let s1 = (if ev = None \<or> ev = Some InertialSensorSettingsHandle
                then s\<lparr>GyrosBias := InertialSensorSettings_InitialGyroBias obj,
                       gyroBiasSettingsUpdated := True\<rparr>
                else s);
          (calls, s2) = (if ev = None \<or> ev = Some INSSettingsHandle
                         then (let s' = s1\<lparr>insSettings := INSSettings obj\<rparr> in (ins_set_vars s', s'))
                         else ([], s1));
          s3 = (if ev = None \<or> ev = Some HomeLocationHandle
                then (let h = HomeLocation obj;
                          lat = float_of_int32 (HomeLocationData.Latitude h) / 10000000 * DEG2RAD;
                          alt = HomeLocationData.Altitude h
                      in s2\<lparr>homeLocation := h,
                            T := (alt + 6378137, cosf lat * (alt + 6378137), - 1)\<rparr>)
                else s2);
          s4 = (if ev = None \<or> ev = Some AttitudeSettingsHandle
                then (let s' = s3\<lparr>attitudeSettings := AttitudeSettings obj\<rparr> in
                      if AccelTau (attitudeSettings s') < 0.0001
                      then s'\<lparr>accel_alpha := 0, accel_filter_enabled := False\<rparr>
                      else s'\<lparr>accel_alpha := expf (- 0.0025 / AccelTau (attitudeSettings s')),
                             accel_filter_enabled := True\<rparr>)
                else s3);
          s5 = (if ev = None \<or> ev = Some RevoSettingsHandle
                then s4\<lparr>revoSettings := RevoSettings_FusionAlgorithm obj\<rparr> else s4)
      in (calls, s5))"

section \<open>Navigation filter\<close>

definition ins_clear_updated :: "state \<Rightarrow> state" where
  "ins_clear_updated s =
     s\<lparr>mag_updated := False, baro_updated := False, gps_updated := False,
       gps_vel_updated := False\<rparr>"

text \<open>
  The flags that say which sensors were updated since the last correction, with the
  conditions under which a magnetometer or GPS position update is kept.
\<close>

definition ins_gather :: "bool \<Rightarrow> cycle_in \<Rightarrow> state \<Rightarrow> state" where
  "ins_gather outdoor_mode i s =
     (case Magnetometer i of (mx, my, mz) \<Rightarrow> case Be (homeLocation s) of (b0, b1, b2) \<Rightarrow>
        s\<lparr>mag_updated := ((mag_updated s \<or> mag_rx i)
                            \<and> (feq mx mx \<and> feq my my \<and> feq mz mz))
                           \<and> (\<not> feq b0 0 \<or> \<not> feq b1 0 \<or> \<not> feq b2 0),
          baro_updated := (baro_updated s \<or> baro_rx i),
          gps_updated := ((gps_updated s \<or> (gps_rx i \<and> outdoor_mode))
                            \<and> (7 \<le> Satellites (GPSPosition i) \<and> PDOP (GPSPosition i) \<le> 4
                                 \<and> Set (homeLocation s))),
          gps_vel_updated := (gps_vel_updated s \<or> (gpsVel_rx i \<and> outdoor_mode))\<rparr>)"

definition ins_alarm :: "bool \<Rightarrow> cycle_in \<Rightarrow> state \<Rightarrow> state" where
  "ins_alarm outdoor_mode i s =
     (if \<not> inited s then s\<lparr>AttitudeAlarm := SYSTEMALARMS_ALARM_ERROR\<rparr>
      else if outdoor_mode \<and> Satellites (GPSPosition i) < 7
        then s\<lparr>AttitudeAlarm := SYSTEMALARMS_ALARM_ERROR\<rparr>
      else s\<lparr>AttitudeAlarm := SYSTEMALARMS_ALARM_OK\<rparr>)"

definition Pdiag :: "float list" where
  "Pdiag = [25, 25, 25, 5, 5, 5, 0.00001, 0.00001, 0.00001, 0.00001, 0.00001, 0.00001,
            0.00001, 0.0001, 0.0001, 0.0001]"

definition zeros :: vec3 where
  "zeros = (0, 0, 0)"

definition deg2rad_vec :: "vec3 \<Rightarrow> vec3" where
  "deg2rad_vec v = (case v of (a, b, c) \<Rightarrow> (a * F_PI / 180, b * F_PI / 180, c * F_PI / 180))"

definition initial_attitude :: "coordinate_conversions \<Rightarrow> vec3 \<Rightarrow> vec3 \<Rightarrow> AttitudeActualData" where
  "initial_attitude lib accelsData magData =
     (case accelsData of (ax, ay, az) \<Rightarrow> case magData of (mx, my, mz) \<Rightarrow>
        let roll = atan2f lib (- ay) (- az) * 180 / F_PI;
            pitch = atan2f lib ax (- az) * 180 / F_PI;
            yaw = atan2f lib (- my) mx * 180 / F_PI
        in (case RPY2Quaternion lib (roll, pitch, yaw) of (qa, qb, qc, qd) \<Rightarrow>
              \<lparr>q1 = qa, q2 = qb, q3 = qc, q4 = qd, Roll = roll, Pitch = pitch, Yaw = yaw\<rparr>))"

text \<open>Stage 0 of the initialisation, indoor and outdoor.\<close>

definition ins_init_indoor ::
  "coordinate_conversions \<Rightarrow> cycle_in \<Rightarrow> state \<Rightarrow> ins_call list \<times> state" where
  "ins_init_indoor lib i s =
     (let s1 = s\<lparr>baroOffset := - BaroAltitude i\<rparr>;
          pos = (0, 0, - (BaroAltitude i + baroOffset s1));
          gyro_bias = deg2rad_vec (GyrosBias s1);
          att = initial_attitude lib (Accels i) (Magnetometer_after_wait i)
      in ([INSGPSInit] @ ins_set_vars s1
            @ [INSSetGyroBias gyro_bias, INSSetState pos zeros (attitude_quat att) zeros zeros,
               INSResetP Pdiag],
          s1\<lparr>AttitudeActual := att\<rparr>))"

definition ins_init_outdoor ::
  "coordinate_conversions \<Rightarrow> cycle_in \<Rightarrow> state \<Rightarrow> ins_call list \<times> state" where
  "ins_init_outdoor lib i s =
     (let gyro_bias = deg2rad_vec (GyrosBias s);
          NED = getNED (GPSPosition i) s
      in case NED of (n0, n1, n2) \<Rightarrow>
         let s1 = s\<lparr>baroOffset := - n2 - BaroAltitude i\<rparr>;
             att = initial_attitude lib (Accels i) (Magnetometer_after_wait i)
         in ([INSGPSInit] @ ins_set_vars s
               @ [INSSetMagNorth (Be (homeLocation s)), INSSetGyroBias gyro_bias,
                  INSSetState NED zeros (attitude_quat att) zeros zeros, INSResetP Pdiag],
             s1\<lparr>AttitudeActual := att\<rparr>))"

definition publish_nav_attitude :: "coordinate_conversions \<Rightarrow> cycle_in \<Rightarrow> state \<Rightarrow> state" where
  "publish_nav_attitude lib i s =
     (case Nav_q i of (qa, qb, qc, qd) \<Rightarrow>
      case Quaternion2RPY lib (qa, qb, qc, qd) of (roll, pitch, yaw) \<Rightarrow>
        s\<lparr>AttitudeActual := (AttitudeActual s)
             \<lparr>q1 := qa, q2 := qb, q3 := qc, q4 := qd, Roll := roll, Pitch := pitch, Yaw := yaw\<rparr>\<rparr>)"

text \<open>A later stage of the initialisation: one prediction step.\<close>

definition ins_init_predict ::
  "coordinate_conversions \<Rightarrow> cycle_in \<Rightarrow> state \<Rightarrow> ins_call list \<times> state" where
  "ins_init_predict lib i s =
     (let dT = float_of_uint32 (PIOS_DELAY_DiffuS i) / 1000000 in
      case Gyros i of (gx, gy, gz) \<Rightarrow> case GyrosBias s of (bx, by, bz) \<Rightarrow>
        let gyros = ((gx + bx) * F_PI / 180, (gy + by) * F_PI / 180, (gz + bz) * F_PI / 180)
        in ([INSStatePrediction gyros (Accels i) dT], publish_nav_attitude lib i s))"

definition ins_init_step ::
  "coordinate_conversions \<Rightarrow> bool \<Rightarrow> cycle_in \<Rightarrow> state \<Rightarrow> int \<times> ins_call list \<times> state" where
  "ins_init_step lib outdoor_mode i s =
     (case (if init_stage s = 0 \<and> \<not> outdoor_mode then ins_init_indoor lib i s
            else if init_stage s = 0 \<and> outdoor_mode then ins_init_outdoor lib i s
            else if 0 < sint (init_stage s) then ins_init_predict lib i s
            else ([], s)) of (calls, s1) \<Rightarrow>
        let s2 = s1\<lparr>init_stage := init_stage s1 + 1\<rparr>;
            s3 = (if 10 < sint (init_stage s2) then s2\<lparr>inited := True\<rparr> else s2)
        in (0, calls, s3\<lparr>ins_last_time := PIOS_DELAY_GetRaw i\<rparr>))"

text \<open>The cycle of an initialised filter: prediction, then correction with the sensors at hand.\<close>

definition ins_dT :: "cycle_in \<Rightarrow> float" where
  "ins_dT i =
     (let dT = float_of_uint32 (PIOS_DELAY_DiffuS i) / 1000000 in
      if 0.01 < dT then 0.01 else if dT \<le> 0.001 then 0.001 else dT)"

definition ins_gyros :: "cycle_in \<Rightarrow> vec3 \<Rightarrow> state \<Rightarrow> vec3" where
  "ins_gyros i gyrosBias s =
     (case Gyros i of (gx, gy, gz) \<Rightarrow> case gyrosBias of (bx, by, bz) \<Rightarrow>
        if BiasCorrectGyro (attitudeSettings s)
        then (gx * F_PI / 180 + bx * F_PI / 180, gy * F_PI / 180 + by * F_PI / 180,
              gz * F_PI / 180 + bz * F_PI / 180)
        else (gx * F_PI / 180, gy * F_PI / 180, gz * F_PI / 180))"

definition BARO_OFFSET_LOWPASS_ALPHA :: float where
  "BARO_OFFSET_LOWPASS_ALPHA = 0.9997"

text \<open>
  The position and velocity handed to the correction: the result is the calls made, the new
  state, the mask, the NED position and the velocity. The branch under
  \<^verbatim>\<open>if (0)\<close>, which took the horizontal velocity from ground speed and heading,
  never runs and is left out.
\<close>

definition ins_measurements ::
  "bool \<Rightarrow> cycle_in \<Rightarrow> state \<Rightarrow> ins_call list \<times> state \<times> sensor_mask set \<times> vec3 \<times> vec3" where
  "ins_measurements outdoor_mode i s =
     (let sensors0 = (if mag_updated s then {MAG_SENSORS} else {})
                       \<union> (if baro_updated s then {BARO_SENSOR} else {});
          calls0 = [INSSetMagNorth (Be (homeLocation s))];
          (calls1, s1, sensors1, NED) =
            (if gps_updated s \<and> outdoor_mode then
               (let NED = getNED (GPSPosition i) s in
                case NED of (n0, n1, n2) \<Rightarrow>
                  (calls0 @ [INSSetPosVelVar (fst (gps_var (insSettings s)))
                                              (snd (gps_var (insSettings s)))],
                   s\<lparr>baroOffset := BARO_OFFSET_LOWPASS_ALPHA * baroOffset s
                                      + (1 - BARO_OFFSET_LOWPASS_ALPHA) * (- n2 - BaroAltitude i),
                     NEDPosition := NED\<rparr>,
                   sensors0 \<union> {POS_SENSORS}, NED))
             else if \<not> outdoor_mode then
               (let s1 = s\<lparr>baroOffset := 0\<rparr> in
                (calls0 @ [INSSetPosVelVar 100 100], s1,
                 sensors0 \<union> {HORIZ_SENSORS, HORIZ_POS_SENSORS} \<union> {POS_SENSORS, VERT_SENSORS},
                 (0, 0, - (BaroAltitude i + baroOffset s1))))
             else (calls0, s, sensors0, (0, 0, 0)));
          (sensors2, vel) =
            (if gps_vel_updated s1 \<and> outdoor_mode
             then (sensors1 \<union> {HORIZ_SENSORS, VERT_SENSORS}, GPSVelocity i)
             else (sensors1, (0, 0, 0)))
      in (calls1, s1, sensors2, NED, vel))"

definition rad2deg_vec :: "vec3 \<Rightarrow> vec3" where
  "rad2deg_vec v = (case v of (a, b, c) \<Rightarrow> (a * 180 / F_PI, b * 180 / F_PI, c * 180 / F_PI))"

text \<open>
  A call of the settings callback that lands during the calculation is taken at one point:
  after the pending gyro bias was handed to the filter and the flag cleared (line 898), and
  before anything else of the cycle. The local copy \<^verbatim>\<open>gyrosBias\<close>, read at line
  749, is not changed by it. A call that lands before line 749 or after line 1007 is a call
  between two cycles; one between lines 749 and 894 is not modelled.
\<close>

definition ins_callback :: "cycle_in \<Rightarrow> state \<Rightarrow> ins_call list \<times> state" where
  "ins_callback i s =
     (case callback_event i of
        None \<Rightarrow> ([], s)
      | Some ev \<Rightarrow> settingsUpdatedCb ev (objects i) s)"

definition ins_run :: "coordinate_conversions \<Rightarrow> bool \<Rightarrow> cycle_in \<Rightarrow> state \<Rightarrow> int \<times> ins_call list \<times> state" where
  "ins_run lib outdoor_mode i s =
     (let dT = ins_dT i;
          gyrosBias = GyrosBias s;
          (calls0, s0) =
            (if gyroBiasSettingsUpdated s
             then ([INSSetGyroBias (deg2rad_vec gyrosBias)], s\<lparr>gyroBiasSettingsUpdated := False\<rparr>)
             else ([], s));
          (callsP, s1) = ins_callback i s0;
          gyros = ins_gyros i gyrosBias s1;
          s2 = publish_nav_attitude lib i s1;
          calls1 = calls0 @ callsP @ [INSStatePrediction gyros (Accels i) dT, INSCovariancePrediction dT]
      in case ins_measurements outdoor_mode i s2 of (calls2, s3, sensors, NED, vel) \<Rightarrow>
         let calls3 = calls1 @ calls2
                        @ (if sensors \<noteq> {}
                           then [INSCorrection (Magnetometer i) NED vel
                                   (BaroAltitude i + baroOffset s3) sensors]
                           else []);
             s4 = s3\<lparr>PositionActual := Nav_Pos i, VelocityActual := Nav_Vel i\<rparr>;
             s5 = (if BiasCorrectGyro (attitudeSettings s4) \<and> \<not> gyroBiasSettingsUpdated s4
                   then s4\<lparr>GyrosBias := rad2deg_vec (Nav_gyro_bias i)\<rparr> else s4)
         in (0, calls3, s5))"

definition updateAttitudeINSGPS ::
  "coordinate_conversions \<Rightarrow> bool \<Rightarrow> bool \<Rightarrow> cycle_in \<Rightarrow> state \<Rightarrow> int \<times> ins_call list \<times> state" where
  "updateAttitudeINSGPS lib first_run outdoor_mode i s =
     (if INSGPSGetNav_null i then (- 1, [], s)
      else if (\<not> gyro_rx i \<or> \<not> accel_rx i) \<and> \<not> AttitudeActualReadOnly i
        then (- 1, [], s\<lparr>AttitudeAlarm := SYSTEMALARMS_ALARM_WARNING\<rparr>)
      else
        let s1 = (if inited s then ins_clear_updated s else s) in
        if first_run then
          (0, [], (ins_clear_updated (s1\<lparr>inited := False, init_stage := 0\<rparr>))
                    \<lparr>ins_last_time := PIOS_DELAY_GetRaw i\<rparr>)
        else
          let s2 = ins_alarm outdoor_mode i (ins_gather outdoor_mode i s1) in
          if \<not> inited s2 \<and> mag_updated s2 \<and> baro_updated s2 \<and> (gps_updated s2 \<or> \<not> outdoor_mode)
          then ins_init_step lib outdoor_mode i s2
          else if \<not> inited s2 then (0, [], s2)
          else ins_run lib outdoor_mode i s2)"

section \<open>Task loop\<close>

record task_state =
  first_run :: bool
  last_algorithm :: "FusionAlgorithm option"

text \<open>One iteration of the loop of \<^verbatim>\<open>AttitudeTask\<close>; the algorithm never seen before is \<open>None\<close>.\<close>

definition AttitudeTask_iteration ::
  "coordinate_conversions \<Rightarrow> cycle_in \<Rightarrow> task_state \<times> state \<Rightarrow> ins_call list \<times> task_state \<times> state" where
  "AttitudeTask_iteration lib i ts =
     (case ts of (t, s) \<Rightarrow>
        let t1 = (if last_algorithm t \<noteq> Some (revoSettings s)
                  then t\<lparr>last_algorithm := Some (revoSettings s), first_run := True\<rparr> else t);
            (ret_val, calls, s1) =
              (case revoSettings s of
                 REVOSETTINGS_FUSIONALGORITHM_COMPLEMENTARY \<Rightarrow>
                   (case updateAttitudeComplementary lib (first_run t1) i s of (r, s') \<Rightarrow> (r, [], s'))
               | REVOSETTINGS_FUSIONALGORITHM_INSOUTDOOR \<Rightarrow>
                   updateAttitudeINSGPS lib (first_run t1) True i s
               | REVOSETTINGS_FUSIONALGORITHM_INSINDOOR \<Rightarrow>
                   updateAttitudeINSGPS lib (first_run t1) False i s
               | REVOSETTINGS_FUSIONALGORITHM_unrecognised \<Rightarrow>
                   (- 1, [], s\<lparr>AttitudeAlarm := SYSTEMALARMS_ALARM_CRITICAL\<rparr>));
            t2 = (if ret_val = 0 then t1\<lparr>first_run := False\<rparr> else t1)
        in (calls, t2, s1))"

section \<open>Runs and start-up values\<close>

text \<open>
  The variables as the C start-up and \<^verbatim>\<open>AttitudeStart\<close> leave them: statics are
  zero, the quaternion is the identity and the gyro bias is zero. The settings copies are
  loaded by \<open>settingsUpdatedCb None\<close> before the first cycle reads them.
\<close>

definition zero_state :: state where
  "zero_state =
     \<lparr>AttitudeActual = \<lparr>q1 = 1, q2 = 0, q3 = 0, q4 = 0, Roll = 0, Pitch = 0, Yaw = 0\<rparr>,
      GyrosBias = (0, 0, 0),
      NEDPosition = (0, 0, 0),
      PositionActual = (0, 0, 0),
      VelocityActual = (0, 0, 0),
      AttitudeAlarm = SYSTEMALARMS_ALARM_OK,
      attitudeSettings = \<lparr>AccelKp = 0, AccelKi = 0, YawBiasRate = 0, MagKp = 0, AccelTau = 0,
                           ZeroDuringArming = False, BiasCorrectGyro = False\<rparr>,
      homeLocation = \<lparr>Set = False, Latitude = 0, Longitude = 0, Altitude = 0, Be = (0, 0, 0)\<rparr>,
      insSettings = \<lparr>accel_var = (0, 0, 0), gyro_var = (0, 0, 0), mag_var = (0, 0, 0),
                      gps_var = (0, 0), baro_var = 0\<rparr>,
      revoSettings = REVOSETTINGS_FUSIONALGORITHM_COMPLEMENTARY,
      gyroBiasSettingsUpdated = False,
      accel_filter_enabled = False,
      accel_alpha = 0,
      gyro_bias_est = \<lparr>accumulated_gyro = (0, 0, 0), accumulated_gyro_samples = 0,
                        accumulating_gyro = False\<rparr>,
      accel_mag = 0,
      qmag = 0,
      mag_err = (0, 0, 0),
      T = (0, 0, 0),
      timeval = 0,
      accels_filtered = (0, 0, 0),
      grot_filtered = (0, 0, 0),
      arming_count = 0,
      cf_status = CF_POWERON,
      mag_updated = False,
      baro_updated = False,
      gps_updated = False,
      gps_vel_updated = False,
      baroOffset = 0,
      ins_last_time = 0,
      inited = False,
      init_stage = 0\<rparr>"

text \<open>The sum one axis of the accumulator holds after \<open>n\<close> additions of \<open>x\<close> to \<open>a\<close>.\<close>

definition axis_sum :: "nat \<Rightarrow> float \<Rightarrow> float \<Rightarrow> float" where
  "axis_sum n x a = ((\<lambda>acc. acc + x) ^^ n) a"

text \<open>An accumulator that is running, with a published bias of 1 deg/s on each axis.\<close>

definition accumulating_state :: state where
  "accumulating_state =
     zero_state\<lparr>GyrosBias := (Fin 1, Fin 1, Fin 1),
                gyro_bias_est := \<lparr>accumulated_gyro = (0, 0, 0), accumulated_gyro_samples = 0,
                                  accumulating_gyro = True\<rparr>\<rparr>"

text \<open>
  Concrete inputs on which the model is run. \<open>unit_conversions\<close> stands in for the
  coordinate conversion library at the level attitude: every rotation is the identity.
\<close>

definition unit_conversions :: coordinate_conversions where
  "unit_conversions =
     \<lparr>atan2f = (\<lambda>y x. 0),
      RPY2Quaternion = (\<lambda>rpy. (1, 0, 0, 0)),
      Quaternion2RPY = (\<lambda>q. (0, 0, 0)),
      Quaternion2R = (\<lambda>q. ((1, 0, 0), (0, 1, 0), (0, 0, 1))),
      rot_mult = (\<lambda>R v transpose. v)\<rparr>"

definition base_cycle :: cycle_in where
  "base_cycle =
     \<lparr>gyro_rx = True, accel_rx = True, mag_rx = False, baro_rx = False, gps_rx = False,
      gpsVel_rx = False, AttitudeActualReadOnly = False,
      Gyros = (0, 0, 0), Accels = (0, 0, - Fin 9.81), Magnetometer = (100, 0, 0),
      Magnetometer_after_wait = (100, 0, 0), BaroAltitude = 0,
      GPSPosition = \<lparr>Latitude = 0, Longitude = 0, Altitude = 0, GeoidSeparation = 0,
                      Satellites = 0, PDOP = 0, Groundspeed = 0, Heading = 0\<rparr>,
      GPSVelocity = (0, 0, 0), mag_sensor_registered = True,
      FlightStatus_Armed = FLIGHTSTATUS_ARMED_DISARMED,
      objects = \<lparr>InertialSensorSettings_InitialGyroBias = (0, 0, 0),
                  INSSettings = insSettings zero_state,
                  HomeLocation = homeLocation zero_state,
                  AttitudeSettings = attitudeSettings zero_state,
                  RevoSettings_FusionAlgorithm = REVOSETTINGS_FUSIONALGORITHM_COMPLEMENTARY\<rparr>,
      xTaskGetTickCount = 10000, PIOS_DELAY_DiffuS = 2000, PIOS_DELAY_GetRaw = 0,
      INSGPSGetNav_null = False,
      Nav_q = (1, 0, 0, 0), Nav_Pos = (0, 0, 0), Nav_Vel = (0, 0, 0), Nav_gyro_bias = (0, 0, 0),
      callback_event = None\<rparr>"

definition home_state :: state where
  "home_state =
     zero_state\<lparr>homeLocation := \<lparr>Set = True, Latitude = 0, Longitude = 0, Altitude = 0,
                                  Be = (0, Fin 1, 0)\<rparr>\<rparr>"

definition fresh_mag_cycle :: cycle_in where
  "fresh_mag_cycle = base_cycle\<lparr>mag_rx := True, Magnetometer := (Fin 1, 0, 0)\<rparr>"

text \<open>A home location near Zurich and a GPS fix at the same place, 488 m above the ellipsoid.\<close>

definition zurich_home :: HomeLocationData where
  "zurich_home =
     \<lparr>Set = True, Latitude = 473977000, Longitude = 85456000, Altitude = Fin 488,
      Be = (Fin 21000, Fin 900, Fin 43000)\<rparr>"

definition zurich_fix :: GPSPositionData where
  "zurich_fix =
     \<lparr>Latitude = 473977000, Longitude = 85456000, Altitude = Fin 440, GeoidSeparation = Fin 48,
      Satellites = 9, PDOP = Fin 1.5, Groundspeed = 0, Heading = 0\<rparr>"

definition zurich_objects :: settings_objects where
  "zurich_objects = (objects base_cycle)\<lparr>HomeLocation := zurich_home\<rparr>"

text \<open>
  A run of navigation-filter cycles. Each element gives \<open>first_run\<close>,
  \<open>outdoor_mode\<close> and the input of one cycle; the result is the calls made to the INS
  library, in order, and the last state.
\<close>

fun run_INSGPS ::
  "coordinate_conversions \<Rightarrow> (bool \<times> bool \<times> cycle_in) list \<Rightarrow> state \<Rightarrow> ins_call list \<times> state" where
  "run_INSGPS lib [] s = ([], s)"
| "run_INSGPS lib ((fr, od, i) # cs) s =
     (case updateAttitudeINSGPS lib fr od i s of (r, calls, s1) \<Rightarrow>
        case run_INSGPS lib cs s1 of (calls', s2) \<Rightarrow> (calls @ calls', s2))"

fun is_correction :: "ins_call \<Rightarrow> bool" where
  "is_correction (INSCorrection m n v b sm) = True"
| "is_correction c = False"

fun is_prediction :: "ins_call \<Rightarrow> bool" where
  "is_prediction (INSStatePrediction g a d) = True"
| "is_prediction c = False"

text \<open>A correction that takes the position from the GPS: the mask has \<open>POS_SENSORS\<close>.\<close>

fun corrects_position :: "ins_call \<Rightarrow> bool" where
  "corrects_position (INSCorrection m n v b sm) = (POS_SENSORS \<in> sm)"
| "corrects_position c = False"

text \<open>The cycle gets past the check of the \<^verbatim>\<open>Nav\<close> handle and the wait for gyro and accel.\<close>

definition cycle_runs :: "cycle_in \<Rightarrow> bool" where
  "cycle_runs i \<longleftrightarrow>
     \<not> INSGPSGetNav_null i \<and> ((gyro_rx i \<and> accel_rx i) \<or> AttitudeActualReadOnly i)"


text \<open>
  The filter is initialised; a configuration pushes a gyro bias of 1 deg/s per axis and
  enables bias correction; the filter reports a bias of 0.02 rad/s at the end of the next
  cycle.
\<close>

definition override_objects :: settings_objects where
  "override_objects =
     zurich_objects
       \<lparr>InertialSensorSettings_InitialGyroBias := (Fin 1, Fin 1, Fin 1),
        AttitudeSettings := (AttitudeSettings zurich_objects)\<lparr>BiasCorrectGyro := True\<rparr>\<rparr>"

definition running_state :: state where
  "running_state = zero_state\<lparr>inited := True, init_stage := 11\<rparr>"

definition override_state :: state where
  "override_state = snd (settingsUpdatedCb None override_objects running_state)"

definition override_cycle :: cycle_in where
  "override_cycle = base_cycle\<lparr>Nav_gyro_bias := (Fin 0.02, Fin 0.02, Fin 0.02)\<rparr>"


text \<open>An outdoor cycle in which a GPS position arrived, with 9 satellites and with 6.\<close>

definition gps_cycle :: cycle_in where
  "gps_cycle = base_cycle\<lparr>gps_rx := True, GPSPosition := zurich_fix\<rparr>"

definition gps_cycle_6 :: cycle_in where
  "gps_cycle_6 = base_cycle\<lparr>gps_rx := True, GPSPosition := zurich_fix\<lparr>Satellites := 6\<rparr>\<rparr>"

text \<open>
  A cycle in which every sensor that the initialisation waits for has delivered: the cycle
  runs, magnetometer and barometer arrived, the magnetometer sample has no NaN, a magnetic
  field is configured and, outdoors, a GPS position arrived that passes the minimum
  requirement.
\<close>

definition init_ready :: "bool \<Rightarrow> cycle_in \<Rightarrow> state \<Rightarrow> bool" where
  "init_ready od i s \<longleftrightarrow>
     cycle_runs i \<and> mag_rx i \<and> baro_rx i
     \<and> (case Magnetometer i of (mx, my, mz) \<Rightarrow> feq mx mx \<and> feq my my \<and> feq mz mz)
     \<and> (case Be (homeLocation s) of (b0, b1, b2) \<Rightarrow> \<not> feq b0 0 \<or> \<not> feq b1 0 \<or> \<not> feq b2 0)
     \<and> (od \<longrightarrow> gps_rx i \<and> 7 \<le> Satellites (GPSPosition i) \<and> PDOP (GPSPosition i) \<le> 4
               \<and> Set (homeLocation s))"


text \<open>The state after the settings for Zurich are loaded, and an indoor cycle with all sensors.\<close>

definition loaded_state :: state where
  "loaded_state = snd (settingsUpdatedCb None zurich_objects zero_state)"

definition ready_cycle :: cycle_in where
  "ready_cycle = base_cycle\<lparr>mag_rx := True, baro_rx := True\<rparr>"




text \<open>A cycle in which the magnetometer delivered and the barometer did not.\<close>

definition mag_cycle :: cycle_in where
  "mag_cycle = base_cycle\<lparr>mag_rx := True\<rparr>"

text \<open>The quaternion is finite, of norm 1 and has a scalar part that is not negative.\<close>

definition unit_quat :: "quat \<Rightarrow> bool" where
  "unit_quat q =
     (case q of
        (Fin a, Fin b, Fin c, Fin d) \<Rightarrow> a * a + b * b + c * c + d * d = 1 \<and> 0 \<le> a
      | _ \<Rightarrow> False)"

section \<open>Arithmetic of the float model\<close>

lemma Fin_plus [simp]: "Fin a + Fin b = Fin (a + b)" "NaN + x = NaN" "x + NaN = NaN"
  by (simp_all add: plus_float_def split: float.splits)

lemma Fin_minus [simp]: "Fin a - Fin b = Fin (a - b)" "NaN - x = NaN" "x - NaN = NaN"
  by (simp_all add: minus_float_def split: float.splits)

lemma Fin_uminus [simp]: "- Fin a = Fin (- a)" "- NaN = NaN"
  by (simp_all add: uminus_float_def)

lemma Fin_times [simp]: "Fin a * Fin b = Fin (a * b)" "NaN * x = NaN" "x * NaN = NaN"
  by (simp_all add: times_float_def split: float.splits)

lemma Fin_divide [simp]:
  "Fin a / Fin b = (if b = 0 then NaN else Fin (a / b))" "NaN / x = NaN" "x / NaN = NaN"
  by (simp_all add: divide_float_def split: float.splits)

lemma Fin_less [simp]: "Fin a < Fin b \<longleftrightarrow> a < b" "\<not> NaN < x" "\<not> x < NaN"
  by (simp_all add: less_float_def split: float.splits)

lemma Fin_less_eq [simp]: "Fin a \<le> Fin b \<longleftrightarrow> a \<le> b" "\<not> NaN \<le> x" "\<not> x \<le> NaN"
  by (simp_all add: less_eq_float_def split: float.splits)

lemma feq_simps [simp]: "feq (Fin a) (Fin b) \<longleftrightarrow> a = b" "\<not> feq NaN x" "\<not> feq x NaN"
  by (simp_all add: feq_def split: float.splits)

lemma zero_float [simp]: "(0::float) = Fin 0"
  by (simp add: zero_float_def)

lemma one_float [simp]: "(1::float) = Fin 1"
  by (simp add: one_float_def)

lemma numeral_float [simp]: "(numeral k :: float) = Fin (numeral k)"
proof (induction k)
  case One
  show ?case by (simp add: one_float_def)
next
  case (Bit0 k)
  have "(numeral (num.Bit0 k) :: float) = numeral k + numeral k"
    by (rule numeral.simps(2))
  also have "\<dots> = Fin (numeral k + numeral k)"
    by (simp only: Bit0 Fin_plus)
  also have "(numeral k + numeral k :: real) = numeral (num.Bit0 k)"
    by (rule numeral.simps(2) [symmetric])
  finally show ?case .
next
  case (Bit1 k)
  have "(numeral (num.Bit1 k) :: float) = numeral k + numeral k + 1"
    by (rule numeral.simps(3))
  also have "\<dots> = Fin (numeral k + numeral k + 1)"
    by (simp only: Bit1 Fin_plus one_float_def)
  also have "(numeral k + numeral k + 1 :: real) = numeral (num.Bit1 k)"
    by (rule numeral.simps(3) [symmetric])
  finally show ?case .
qed

lemma power_float [simp]: "Fin a ^ n = Fin (a ^ n)"
  by (induction n) (simp_all add: one_float_def)


section \<open>Properties of the gyro bias accumulator\<close>

lemma axis_sum_Suc: "axis_sum (Suc n) x a = axis_sum n x a + x"
  by (simp add: axis_sum_def)

lemma axis_sum_0: "axis_sum 0 x a = a"
  by (simp add: axis_sum_def)

lemma axis_sum_Fin: "axis_sum n (Fin r) (Fin a) = Fin (a + real n * r)"
  by (induction n) (simp_all add: axis_sum_Suc axis_sum_0 algebra_simps)

lemma axis_sum_NaN: "0 < n \<Longrightarrow> axis_sum n NaN a = NaN"
  by (cases n) (simp_all add: axis_sum_Suc)

lemma axis_mean: "0 < n \<Longrightarrow> axis_sum n x (Fin 0) / Fin (real n) = x"
  by (cases x) (simp_all add: axis_sum_Fin axis_sum_NaN)

lemma accumulate_gyro_step:
  "accumulating_gyro (gyro_bias_est s) \<Longrightarrow>
   accumulate_gyro (gx, gy, gz) s =
     s\<lparr>gyro_bias_est := (gyro_bias_est s)
          \<lparr>accumulated_gyro_samples := accumulated_gyro_samples (gyro_bias_est s) + 1,
           accumulated_gyro :=
             (fst (accumulated_gyro (gyro_bias_est s)) + (gx + fst (GyrosBias s)),
              fst (snd (accumulated_gyro (gyro_bias_est s))) + (gy + fst (snd (GyrosBias s))),
              snd (snd (accumulated_gyro (gyro_bias_est s))) + (gz + snd (snd (GyrosBias s))))\<rparr>\<rparr>"
  by (simp add: accumulate_gyro_def split: prod.splits)

lemma accumulate_gyro_funpow:
  "accumulating_gyro (gyro_bias_est s) \<Longrightarrow>
   (accumulate_gyro (gx, gy, gz) ^^ n) s =
     s\<lparr>gyro_bias_est := (gyro_bias_est s)
          \<lparr>accumulated_gyro_samples := accumulated_gyro_samples (gyro_bias_est s) + of_nat n,
           accumulated_gyro :=
             (axis_sum n (gx + fst (GyrosBias s)) (fst (accumulated_gyro (gyro_bias_est s))),
              axis_sum n (gy + fst (snd (GyrosBias s))) (fst (snd (accumulated_gyro (gyro_bias_est s)))),
              axis_sum n (gz + snd (snd (GyrosBias s))) (snd (snd (accumulated_gyro (gyro_bias_est s)))))\<rparr>\<rparr>"
proof (induction n)
  case 0
  then show ?case by (simp add: axis_sum_0)
next
  case (Suc n)
  then show ?case
    by (simp add: accumulate_gyro_step axis_sum_Suc)
qed

lemma unat_of_nat_32: "n < 2 ^ 32 \<Longrightarrow> unat (of_nat n :: 32 word) = n"
  by (simp add: unat_of_nat)

lemma compute_after_funpow:
  assumes "accumulating_gyro (gyro_bias_est s)"
    and "accumulated_gyro (gyro_bias_est s) = (0, 0, 0)"
    and "accumulated_gyro_samples (gyro_bias_est s) = 0"
    and "100 < n" and "n < 2 ^ 32"
  shows "accumulate_gyro_compute ((accumulate_gyro (gx, gy, gz) ^^ n) s) =
         s\<lparr>GyrosBias := (gx + fst (GyrosBias s), gy + fst (snd (GyrosBias s)),
                          gz + snd (snd (GyrosBias s))),
           gyro_bias_est := (gyro_bias_est s)
             \<lparr>accumulated_gyro_samples := 0, accumulated_gyro := (0, 0, 0),
              accumulating_gyro := False\<rparr>\<rparr>"
proof -
  have n0: "0 < n" using assms by simp
  have w: "(100 :: 32 word) < of_nat n"
    using assms by (simp add: word_less_nat_alt unat_of_nat_32)
  show ?thesis
    using w n0 assms(1,2,3,5)
    by (simp add: accumulate_gyro_funpow accumulate_gyro_compute_def accumulate_gyro_zero_def
        float_of_uint32_def unat_of_nat_32 axis_mean Let_def)
qed

lemma accumulate_gyro_zero_fields:
  "accumulating_gyro (gyro_bias_est (accumulate_gyro_zero s)) = accumulating_gyro (gyro_bias_est s)"
  "accumulated_gyro (gyro_bias_est (accumulate_gyro_zero s)) = (0, 0, 0)"
  "accumulated_gyro_samples (gyro_bias_est (accumulate_gyro_zero s)) = 0"
  "GyrosBias (accumulate_gyro_zero s) = GyrosBias s"
  by (simp_all add: accumulate_gyro_zero_def)

text \<open>
  C4, as the code has it. A compute request changes nothing, so publishes nothing, while the
  sample count is at most 100. When the accumulator is running and has taken exactly 101
  samples of the constant value \<open>v\<close> per axis since it was zeroed, with the published bias
  at \<open>b\<close>, a compute request publishes \<open>v + b\<close> on each axis (which is \<open>v\<close> when
  \<open>b\<close> is zero), resets the count and the sums to zero and clears the accumulating flag.
  The mean is exact here because the float model does not round; in the code it is
  \<open>v + b\<close> within floating tolerance.
\<close>

theorem accumulate_gyro_compute_publishes_mean:
  "(accumulated_gyro_samples (gyro_bias_est s) \<le> 100 \<longrightarrow> accumulate_gyro_compute s = s)
   \<and> (accumulating_gyro (gyro_bias_est s) \<and> GyrosBias s = (bx, by, bz) \<longrightarrow>
        (let s' = accumulate_gyro_compute
                    ((accumulate_gyro (vx, vy, vz) ^^ 101) (accumulate_gyro_zero s))
         in GyrosBias s' = (vx + bx, vy + by, vz + bz)
            \<and> accumulated_gyro_samples (gyro_bias_est s') = 0
            \<and> accumulated_gyro (gyro_bias_est s') = (0, 0, 0)
            \<and> \<not> accumulating_gyro (gyro_bias_est s')))"
proof (intro conjI impI)
  assume "accumulated_gyro_samples (gyro_bias_est s) \<le> 100"
  then have "\<not> 100 < accumulated_gyro_samples (gyro_bias_est s)"
    by (rule leD)
  then show "accumulate_gyro_compute s = s"
    by (simp add: accumulate_gyro_compute_def)
next
  assume a: "accumulating_gyro (gyro_bias_est s) \<and> GyrosBias s = (bx, by, bz)"
  have "accumulate_gyro_compute
          ((accumulate_gyro (vx, vy, vz) ^^ 101) (accumulate_gyro_zero s)) =
        (accumulate_gyro_zero s)
          \<lparr>GyrosBias := (vx + bx, vy + by, vz + bz),
           gyro_bias_est := (gyro_bias_est (accumulate_gyro_zero s))
             \<lparr>accumulated_gyro_samples := 0, accumulated_gyro := (0, 0, 0),
              accumulating_gyro := False\<rparr>\<rparr>"
    using a compute_after_funpow [of "accumulate_gyro_zero s" 101 vx vy vz]
    by (simp add: accumulate_gyro_zero_fields)
  then show "let s' = accumulate_gyro_compute
                        ((accumulate_gyro (vx, vy, vz) ^^ 101) (accumulate_gyro_zero s))
             in GyrosBias s' = (vx + bx, vy + by, vz + bz)
                \<and> accumulated_gyro_samples (gyro_bias_est s') = 0
                \<and> accumulated_gyro (gyro_bias_est s') = (0, 0, 0)
                \<and> \<not> accumulating_gyro (gyro_bias_est s')"
    by (simp add: Let_def)
qed

lemma accumulating_state_fields:
  "accumulating_gyro (gyro_bias_est accumulating_state)"
  "accumulated_gyro (gyro_bias_est accumulating_state) = (0, 0, 0)"
  "accumulated_gyro_samples (gyro_bias_est accumulating_state) = 0"
  "GyrosBias accumulating_state = (Fin 1, Fin 1, Fin 1)"
  "accumulate_gyro_zero accumulating_state = accumulating_state"
  by (simp_all add: accumulating_state_def accumulate_gyro_zero_def zero_state_def)

lemma accumulating_state_100:
  "accumulating_gyro (gyro_bias_est ((accumulate_gyro (Fin 2, Fin 2, Fin 2) ^^ 100) accumulating_state))"
  "accumulated_gyro_samples
     (gyro_bias_est ((accumulate_gyro (Fin 2, Fin 2, Fin 2) ^^ 100) accumulating_state)) = 100"
  "GyrosBias ((accumulate_gyro (Fin 2, Fin 2, Fin 2) ^^ 100) accumulating_state) = (Fin 1, Fin 1, Fin 1)"
  by (simp_all add: accumulate_gyro_funpow accumulating_state_fields)

theorem accumulate_gyro_compute_publishes_mean_witness:
  "accumulating_gyro (gyro_bias_est ((accumulate_gyro (Fin 2, Fin 2, Fin 2) ^^ 100) accumulating_state))
   \<and> accumulated_gyro_samples
        (gyro_bias_est ((accumulate_gyro (Fin 2, Fin 2, Fin 2) ^^ 100) accumulating_state)) = 100
   \<and> accumulate_gyro_compute ((accumulate_gyro (Fin 2, Fin 2, Fin 2) ^^ 100) accumulating_state)
        = (accumulate_gyro (Fin 2, Fin 2, Fin 2) ^^ 100) accumulating_state
   \<and> GyrosBias (accumulate_gyro_compute
        ((accumulate_gyro (Fin 2, Fin 2, Fin 2) ^^ 100) accumulating_state)) = (Fin 1, Fin 1, Fin 1)
   \<and> accumulating_gyro (gyro_bias_est accumulating_state)
   \<and> GyrosBias accumulating_state = (Fin 1, Fin 1, Fin 1)
   \<and> GyrosBias (accumulate_gyro_compute
        ((accumulate_gyro (Fin 2, Fin 2, Fin 2) ^^ 101) accumulating_state)) = (Fin 3, Fin 3, Fin 3)
   \<and> accumulated_gyro_samples (gyro_bias_est (accumulate_gyro_compute
        ((accumulate_gyro (Fin 2, Fin 2, Fin 2) ^^ 101) accumulating_state))) = 0
   \<and> \<not> accumulating_gyro (gyro_bias_est (accumulate_gyro_compute
        ((accumulate_gyro (Fin 2, Fin 2, Fin 2) ^^ 101) accumulating_state)))"
proof -
  let ?s100 = "(accumulate_gyro (Fin 2, Fin 2, Fin 2) ^^ 100) accumulating_state"
  have le: "accumulated_gyro_samples (gyro_bias_est ?s100) \<le> 100"
    by (simp add: accumulating_state_100)
  have keep: "accumulate_gyro_compute ?s100 = ?s100"
    using le accumulate_gyro_compute_publishes_mean [of ?s100] by blast
  show ?thesis
    using keep
      accumulate_gyro_compute_publishes_mean
        [of accumulating_state "Fin 1" "Fin 1" "Fin 1" "Fin 2" "Fin 2" "Fin 2"]
    by (simp add: accumulating_state_fields accumulating_state_100 Let_def)
qed

text \<open>
  C4 as it is written fails: with a published bias of 1 deg/s, 101 samples of the constant
  value 2 give a published bias of 3, not 2.
\<close>

theorem accumulate_gyro_compute_publishes_v_counterexample:
  "accumulating_gyro (gyro_bias_est accumulating_state)
   \<and> accumulated_gyro_samples (gyro_bias_est
        ((accumulate_gyro (Fin 2, Fin 2, Fin 2) ^^ 101) accumulating_state)) = 101
   \<and> GyrosBias (accumulate_gyro_compute
        ((accumulate_gyro (Fin 2, Fin 2, Fin 2) ^^ 101) accumulating_state)) \<noteq> (Fin 2, Fin 2, Fin 2)"
  using compute_after_funpow [of accumulating_state 101 "Fin 2" "Fin 2" "Fin 2"]
  by (simp add: accumulating_state_fields accumulate_gyro_funpow)

text \<open>
  C10. While the accumulating flag is set, a sample is added to the sums as the raw sample
  plus the published gyro bias, and the count goes up by one. So with constant raw samples
  \<open>v\<close> and a constant published bias \<open>b\<close>, the mean that a compute request publishes
  after more than 100 samples is \<open>v + b\<close> on each axis; where \<open>v\<close> is a number and
  \<open>b\<close> a number other than zero, that is not \<open>v\<close>.
\<close>

theorem accumulate_gyro_adds_published_bias:
  assumes "accumulating_gyro (gyro_bias_est s)"
    and "GyrosBias s = (bx, by, bz)"
    and "accumulated_gyro (gyro_bias_est s) = (a0, a1, a2)"
  shows "accumulated_gyro (gyro_bias_est (accumulate_gyro (vx, vy, vz) s)) =
           (a0 + (vx + bx), a1 + (vy + by), a2 + (vz + bz))
         \<and> accumulated_gyro_samples (gyro_bias_est (accumulate_gyro (vx, vy, vz) s)) =
             accumulated_gyro_samples (gyro_bias_est s) + 1
         \<and> (100 < n \<and> n < 2 ^ 32 \<longrightarrow>
              GyrosBias (accumulate_gyro_compute
                ((accumulate_gyro (vx, vy, vz) ^^ n) (accumulate_gyro_zero s))) =
              (vx + bx, vy + by, vz + bz))
         \<and> (\<forall>v b. vx = Fin v \<and> bx = Fin b \<and> b \<noteq> 0 \<longrightarrow> vx + bx \<noteq> vx)"
proof (intro conjI impI allI)
  show "accumulated_gyro (gyro_bias_est (accumulate_gyro (vx, vy, vz) s)) =
          (a0 + (vx + bx), a1 + (vy + by), a2 + (vz + bz))"
    using assms by (simp add: accumulate_gyro_step)
  show "accumulated_gyro_samples (gyro_bias_est (accumulate_gyro (vx, vy, vz) s)) =
          accumulated_gyro_samples (gyro_bias_est s) + 1"
    using assms by (simp add: accumulate_gyro_step)
next
  assume "100 < n \<and> n < 2 ^ 32"
  then show "GyrosBias (accumulate_gyro_compute
               ((accumulate_gyro (vx, vy, vz) ^^ n) (accumulate_gyro_zero s))) =
             (vx + bx, vy + by, vz + bz)"
    using assms compute_after_funpow [of "accumulate_gyro_zero s" n vx vy vz]
    by (simp add: accumulate_gyro_zero_fields)
next
  fix v b
  assume "vx = Fin v \<and> bx = Fin b \<and> b \<noteq> 0"
  then show "vx + bx \<noteq> vx" by simp
qed

theorem accumulate_gyro_adds_published_bias_witness:
  "accumulating_gyro (gyro_bias_est accumulating_state)
   \<and> GyrosBias accumulating_state = (Fin 1, Fin 1, Fin 1)
   \<and> accumulated_gyro (gyro_bias_est (accumulate_gyro (Fin 2, Fin 2, Fin 2) accumulating_state)) =
       (Fin 3, Fin 3, Fin 3)
   \<and> (100 :: nat) < 150 \<and> (150 :: nat) < 2 ^ 32
   \<and> GyrosBias (accumulate_gyro_compute
        ((accumulate_gyro (Fin 2, Fin 2, Fin 2) ^^ 150) accumulating_state)) = (Fin 3, Fin 3, Fin 3)
   \<and> Fin 2 + Fin 1 \<noteq> Fin 2"
  using accumulate_gyro_adds_published_bias
    [of accumulating_state "Fin 1" "Fin 1" "Fin 1" "Fin 0" "Fin 0" "Fin 0" "Fin 2" "Fin 2" "Fin 2" 150]
  by (simp add: accumulating_state_fields)

section \<open>Properties of the complementary filter\<close>

text \<open>
  C3. When the receive on the gyro queue times out and the published attitude is not
  read-only, the cycle returns -1 and changes nothing but the attitude alarm, which it sets
  to warning; the published attitude is as before.
\<close>

theorem complementary_gyro_timeout:
  assumes "\<not> gyro_rx i" and "\<not> AttitudeActualReadOnly i"
  shows "updateAttitudeComplementary lib fr i s = (- 1, s\<lparr>AttitudeAlarm := SYSTEMALARMS_ALARM_WARNING\<rparr>)
         \<and> AttitudeAlarm (snd (updateAttitudeComplementary lib fr i s)) = SYSTEMALARMS_ALARM_WARNING
         \<and> AttitudeActual (snd (updateAttitudeComplementary lib fr i s)) = AttitudeActual s"
  using assms by (simp add: updateAttitudeComplementary_def)

theorem complementary_gyro_timeout_witness:
  "\<not> gyro_rx (base_cycle\<lparr>gyro_rx := False\<rparr>)
   \<and> \<not> AttitudeActualReadOnly (base_cycle\<lparr>gyro_rx := False\<rparr>)
   \<and> fst (updateAttitudeComplementary unit_conversions False (base_cycle\<lparr>gyro_rx := False\<rparr>) zero_state) = - 1
   \<and> AttitudeAlarm (snd (updateAttitudeComplementary unit_conversions False
        (base_cycle\<lparr>gyro_rx := False\<rparr>) zero_state)) = SYSTEMALARMS_ALARM_WARNING
   \<and> AttitudeActual (snd (updateAttitudeComplementary unit_conversions False
        (base_cycle\<lparr>gyro_rx := False\<rparr>) zero_state)) = AttitudeActual zero_state"
  using complementary_gyro_timeout [of "base_cycle\<lparr>gyro_rx := False\<rparr>" unit_conversions False zero_state]
  by (simp add: base_cycle_def)

lemma accumulate_gyro_frame:
  "homeLocation (accumulate_gyro g s) = homeLocation s"
  "mag_err (accumulate_gyro g s) = mag_err s"
  "AttitudeActual (accumulate_gyro g s) = AttitudeActual s"
  by (simp_all add: accumulate_gyro_def split: prod.splits)

lemma accumulate_gyro_compute_frame:
  "homeLocation (accumulate_gyro_compute s) = homeLocation s"
  "mag_err (accumulate_gyro_compute s) = mag_err s"
  "AttitudeActual (accumulate_gyro_compute s) = AttitudeActual s"
  by (simp_all add: accumulate_gyro_compute_def accumulate_gyro_zero_def Let_def split: prod.splits)

lemma cf_update_status_frame:
  "homeLocation (cf_update_status i s) = homeLocation s"
  "mag_err (cf_update_status i s) = mag_err s"
  "AttitudeActual (cf_update_status i s) = AttitudeActual s"
  by (simp_all add: cf_update_status_def accumulate_gyro_compute_frame accumulate_gyro_zero_def Let_def)

lemma cf_filter_inputs_frame:
  "homeLocation (cf_filter_inputs i s) = homeLocation s"
  "mag_err (cf_filter_inputs i s) = mag_err s"
  "AttitudeActual (cf_filter_inputs i s) = AttitudeActual s"
  by (simp_all add: cf_filter_inputs_def Let_def accumulate_gyro_frame cf_update_status_frame)

lemma cf_passthrough_mag_err: "mag_err (cf_passthrough i s) = mag_err s"
  by (simp add: cf_passthrough_def Let_def)

lemma cf_mag_err_cong:
  "homeLocation s = homeLocation s' \<Longrightarrow> mag_err s = mag_err s' \<Longrightarrow>
   cf_mag_err lib i q s = cf_mag_err lib i q s'"
  by (auto simp add: cf_mag_err_def Let_def split: prod.splits)

lemma cf_update_mag_err:
  "mag_err (snd (cf_update lib i s)) = cf_mag_err lib i (attitude_quat (AttitudeActual s)) s"
proof -
  have "mag_err (snd (cf_update lib i s)) =
        cf_mag_err lib i (attitude_quat (AttitudeActual (cf_filter_inputs i s))) (cf_filter_inputs i s)"
    by (simp add: cf_update_def Let_def cf_passthrough_mag_err split: prod.splits)
  also have "\<dots> = cf_mag_err lib i (attitude_quat (AttitudeActual s)) s"
    by (simp add: cf_filter_inputs_frame cf_mag_err_cong [of "cf_filter_inputs i s" s])
  finally show ?thesis .
qed

lemma complementary_mag_err:
  "gyro_rx i \<Longrightarrow> accel_rx i \<Longrightarrow>
   mag_err (snd (updateAttitudeComplementary lib False i s)) =
     cf_mag_err lib i (attitude_quat (AttitudeActual s)) s"
  by (simp add: updateAttitudeComplementary_def cf_update_mag_err)

text \<open>
  C2. The claim asks for the cross product when a fresh magnetometer sample arrived, the home
  location is set and the sample has no NaN, and for zero otherwise. The code tests the
  receive for failure: with a fresh sample (1, 0, 0) and the home field (0, 1, 0), for which
  the cross product of the normalised vectors is (0, 0, 1), the error of the cycle is zero;
  in the same cycle without a fresh sample the error is that cross product.
\<close>

theorem complementary_mag_error_inverted:
  "mag_rx fresh_mag_cycle \<and> Set (homeLocation home_state)
   \<and> Magnetometer fresh_mag_cycle = (Fin 1, Fin 0, Fin 0)
   \<and> CrossProduct
        (vec_div (Magnetometer fresh_mag_cycle) (vec_norm (Magnetometer fresh_mag_cycle)))
        (vec_div (Be (homeLocation home_state)) (vec_norm (Be (homeLocation home_state))))
        = (Fin 0, Fin 0, Fin 1)
   \<and> mag_err (snd (updateAttitudeComplementary unit_conversions False fresh_mag_cycle home_state))
        = (Fin 0, Fin 0, Fin 0)
   \<and> mag_err (snd (updateAttitudeComplementary unit_conversions False
        (fresh_mag_cycle\<lparr>mag_rx := False\<rparr>) home_state)) = (Fin 0, Fin 0, Fin 1)"
  by (simp add: complementary_mag_err cf_mag_err_def fresh_mag_cycle_def base_cycle_def
      home_state_def zero_state_def unit_conversions_def attitude_quat_def
      vec_div_def vec_norm_def sqrtf_def CrossProduct_def Let_def)

theorem complementary_mag_error_inverted_witness:
  "gyro_rx fresh_mag_cycle \<and> accel_rx fresh_mag_cycle \<and> mag_rx fresh_mag_cycle
   \<and> mag_err (snd (updateAttitudeComplementary unit_conversions False fresh_mag_cycle home_state))
        = (Fin 0, Fin 0, Fin 0)"
  using complementary_mag_error_inverted
  by (simp add: fresh_mag_cycle_def base_cycle_def)

section \<open>Properties of the coordinate module\<close>

lemma settingsUpdatedCb_home:
  assumes "ev = None \<or> ev = Some HomeLocationHandle"
  shows "homeLocation (snd (settingsUpdatedCb ev obj s)) = HomeLocation obj"
    and "T (snd (settingsUpdatedCb ev obj s)) =
           (HomeLocationData.Altitude (HomeLocation obj) + 6378137,
            cosf (float_of_int32 (HomeLocationData.Latitude (HomeLocation obj)) / 10000000 * DEG2RAD)
              * (HomeLocationData.Altitude (HomeLocation obj) + 6378137),
            - 1)"
  using assms by (auto simp add: settingsUpdatedCb_def Let_def split: prod.splits)

lemma DEG2RAD_Fin: "DEG2RAD = Fin (3.141592653589793 / 180)"
  by (simp add: DEG2RAD_def)

lemma minus_one_times: "Fin (- 1) * x = - x"
  by (cases x) simp_all

text \<open>
  C8. After the callback has taken a home location with a finite altitude, the scale factors
  are altitude + Earth radius for North, cos(latitude) times that for East and -1 for Down;
  \<open>getNED\<close> multiplies them with the latitude delta, the longitude delta and the
  altitude delta, which includes the geoid separation of the fix. A fix at the home
  location, that is with the same latitude and longitude and with altitude plus geoid
  separation equal to the home altitude, gives NED = (0, 0, 0).
\<close>

theorem getNED_at_home:
  assumes "ev = None \<or> ev = Some HomeLocationHandle"
    and "HomeLocation obj = h"
    and "HomeLocationData.Altitude h = Fin a"
    and "s' = snd (settingsUpdatedCb ev obj s)"
  shows "T s' = (Fin (a + 6378137),
                 cosf (float_of_int32 (HomeLocationData.Latitude h) / 10000000 * DEG2RAD)
                   * Fin (a + 6378137),
                 Fin (- 1))
         \<and> getNED g s' =
             (Fin (a + 6378137)
                * (float_of_int32 (GPSPositionData.Latitude g - HomeLocationData.Latitude h)
                     / 10000000 * DEG2RAD),
              cosf (float_of_int32 (HomeLocationData.Latitude h) / 10000000 * DEG2RAD)
                * Fin (a + 6378137)
                * (float_of_int32 (GPSPositionData.Longitude g - HomeLocationData.Longitude h)
                     / 10000000 * DEG2RAD),
              - (GPSPositionData.Altitude g + GeoidSeparation g - Fin a))
         \<and> (GPSPositionData.Latitude g = HomeLocationData.Latitude h
              \<and> GPSPositionData.Longitude g = HomeLocationData.Longitude h
              \<and> GPSPositionData.Altitude g + GeoidSeparation g = Fin a
              \<longrightarrow> getNED g s' = (0, 0, 0))"
proof -
  have T: "T s' = (Fin (a + 6378137),
                 cosf (float_of_int32 (HomeLocationData.Latitude h) / 10000000 * DEG2RAD)
                   * Fin (a + 6378137),
                 Fin (- 1))"
    using assms settingsUpdatedCb_home(2) [of ev obj s] by simp
  have H: "homeLocation s' = h"
    using assms settingsUpdatedCb_home(1) [of ev obj s] by simp
  have N: "getNED g s' =
             (Fin (a + 6378137)
                * (float_of_int32 (GPSPositionData.Latitude g - HomeLocationData.Latitude h)
                     / 10000000 * DEG2RAD),
              cosf (float_of_int32 (HomeLocationData.Latitude h) / 10000000 * DEG2RAD)
                * Fin (a + 6378137)
                * (float_of_int32 (GPSPositionData.Longitude g - HomeLocationData.Longitude h)
                     / 10000000 * DEG2RAD),
              - (GPSPositionData.Altitude g + GeoidSeparation g - Fin a))"
    using assms(3) by (simp add: getNED_def T H Let_def minus_one_times)
  have Z: "getNED g s' = (0, 0, 0)"
    if "GPSPositionData.Latitude g = HomeLocationData.Latitude h
        \<and> GPSPositionData.Longitude g = HomeLocationData.Longitude h
        \<and> GPSPositionData.Altitude g + GeoidSeparation g = Fin a"
    using that by (simp add: N float_of_int32_def DEG2RAD_Fin cosf_def)
  show ?thesis using T N Z by blast
qed

theorem getNED_at_home_witness:
  "HomeLocationData.Altitude zurich_home = Fin 488
   \<and> GPSPositionData.Latitude zurich_fix = HomeLocationData.Latitude zurich_home
   \<and> GPSPositionData.Longitude zurich_fix = HomeLocationData.Longitude zurich_home
   \<and> GPSPositionData.Altitude zurich_fix + GeoidSeparation zurich_fix = Fin 488
   \<and> getNED zurich_fix (snd (settingsUpdatedCb (Some HomeLocationHandle) zurich_objects zero_state))
       = (Fin 0, Fin 0, Fin 0)"
  using getNED_at_home [of "Some HomeLocationHandle" zurich_objects zurich_home 488
      "snd (settingsUpdatedCb (Some HomeLocationHandle) zurich_objects zero_state)" zero_state zurich_fix]
  by (simp add: zurich_home_def zurich_fix_def zurich_objects_def float_of_int32_def
      DEG2RAD_Fin cosf_def)

section \<open>Properties of the navigation filter\<close>

lemma ins_gather_frame:
  "inited (ins_gather od i s) = inited s"
  "init_stage (ins_gather od i s) = init_stage s"
  "GyrosBias (ins_gather od i s) = GyrosBias s"
  "gyroBiasSettingsUpdated (ins_gather od i s) = gyroBiasSettingsUpdated s"
  "attitudeSettings (ins_gather od i s) = attitudeSettings s"
  "homeLocation (ins_gather od i s) = homeLocation s"
  "AttitudeAlarm (ins_gather od i s) = AttitudeAlarm s"
  "NEDPosition (ins_gather od i s) = NEDPosition s"
  by (simp_all add: ins_gather_def split: prod.splits)

lemma ins_alarm_frame:
  "inited (ins_alarm od i s) = inited s"
  "init_stage (ins_alarm od i s) = init_stage s"
  "GyrosBias (ins_alarm od i s) = GyrosBias s"
  "gyroBiasSettingsUpdated (ins_alarm od i s) = gyroBiasSettingsUpdated s"
  "attitudeSettings (ins_alarm od i s) = attitudeSettings s"
  "homeLocation (ins_alarm od i s) = homeLocation s"
  "mag_updated (ins_alarm od i s) = mag_updated s"
  "baro_updated (ins_alarm od i s) = baro_updated s"
  "gps_updated (ins_alarm od i s) = gps_updated s"
  "gps_vel_updated (ins_alarm od i s) = gps_vel_updated s"
  "NEDPosition (ins_alarm od i s) = NEDPosition s"
  by (simp_all add: ins_alarm_def)

lemma ins_clear_updated_frame:
  "inited (ins_clear_updated s) = inited s"
  "init_stage (ins_clear_updated s) = init_stage s"
  "GyrosBias (ins_clear_updated s) = GyrosBias s"
  "gyroBiasSettingsUpdated (ins_clear_updated s) = gyroBiasSettingsUpdated s"
  "attitudeSettings (ins_clear_updated s) = attitudeSettings s"
  "homeLocation (ins_clear_updated s) = homeLocation s"
  "AttitudeAlarm (ins_clear_updated s) = AttitudeAlarm s"
  "NEDPosition (ins_clear_updated s) = NEDPosition s"
  "\<not> baro_updated (ins_clear_updated s)"
  by (simp_all add: ins_clear_updated_def)

text \<open>The state on which the body of a cycle works, after the flags and the alarm are set.\<close>

lemma updateAttitudeINSGPS_runs:
  assumes "cycle_runs i"
  shows "updateAttitudeINSGPS lib False od i s =
         (let s2 = ins_alarm od i (ins_gather od i (if inited s then ins_clear_updated s else s)) in
          if \<not> inited s2 \<and> mag_updated s2 \<and> baro_updated s2 \<and> (gps_updated s2 \<or> \<not> od)
          then ins_init_step lib od i s2
          else if \<not> inited s2 then (0, [], s2)
          else ins_run lib od i s2)"
  using assms by (auto simp add: updateAttitudeINSGPS_def cycle_runs_def Let_def)


lemma publish_nav_attitude_frame:
  "GyrosBias (publish_nav_attitude lib i s) = GyrosBias s"
  "gyroBiasSettingsUpdated (publish_nav_attitude lib i s) = gyroBiasSettingsUpdated s"
  "attitudeSettings (publish_nav_attitude lib i s) = attitudeSettings s"
  "homeLocation (publish_nav_attitude lib i s) = homeLocation s"
  "gps_updated (publish_nav_attitude lib i s) = gps_updated s"
  "NEDPosition (publish_nav_attitude lib i s) = NEDPosition s"
  "inited (publish_nav_attitude lib i s) = inited s"
  "init_stage (publish_nav_attitude lib i s) = init_stage s"
  "AttitudeAlarm (publish_nav_attitude lib i s) = AttitudeAlarm s"
  by (simp_all add: publish_nav_attitude_def split: prod.splits)


lemma ins_measurements_calls:
  assumes "ins_measurements od i s = (calls, s1, sm, N, v)"
  shows "\<forall>c \<in> set calls. \<not> is_correction c \<and> \<not> is_prediction c"
  using assms
  by (auto simp add: ins_measurements_def Let_def split: if_splits prod.splits)

lemma ins_measurements_position:
  assumes "ins_measurements True i s = (calls, s1, sm, N, v)"
  shows "POS_SENSORS \<in> sm \<longleftrightarrow> gps_updated s"
    and "\<not> gps_updated s \<Longrightarrow> NEDPosition s1 = NEDPosition s"
  using assms
  by (auto simp add: ins_measurements_def Let_def split: if_splits prod.splits)

lemma settingsUpdatedCb_frame:
  assumes "settingsUpdatedCb ev obj s = (c, s1)"
  shows "mag_updated s1 = mag_updated s" and "baro_updated s1 = baro_updated s"
    and "gps_updated s1 = gps_updated s" and "gps_vel_updated s1 = gps_vel_updated s"
    and "NEDPosition s1 = NEDPosition s" and "inited s1 = inited s"
    and "init_stage s1 = init_stage s" and "AttitudeAlarm s1 = AttitudeAlarm s"
    and "\<forall>x \<in> set c. \<not> is_correction x \<and> \<not> is_prediction x"
  using assms
  by (auto simp add: settingsUpdatedCb_def ins_set_vars_def Let_def split: if_splits prod.splits)


text \<open>What a callback during the calculation leaves alone, and what it does to the pushed bias.\<close>

lemma ins_callback_frame:
  assumes "ins_callback i s = (c, s1)"
  shows "mag_updated s1 = mag_updated s" and "baro_updated s1 = baro_updated s"
    and "gps_updated s1 = gps_updated s" and "gps_vel_updated s1 = gps_vel_updated s"
    and "NEDPosition s1 = NEDPosition s" and "inited s1 = inited s"
    and "init_stage s1 = init_stage s" and "AttitudeAlarm s1 = AttitudeAlarm s"
    and "\<forall>x \<in> set c. \<not> is_correction x \<and> \<not> is_prediction x"
proof -
  show "mag_updated s1 = mag_updated s" "baro_updated s1 = baro_updated s"
    "gps_updated s1 = gps_updated s" "gps_vel_updated s1 = gps_vel_updated s"
    "NEDPosition s1 = NEDPosition s" "inited s1 = inited s"
    "init_stage s1 = init_stage s" "AttitudeAlarm s1 = AttitudeAlarm s"
    "\<forall>x \<in> set c. \<not> is_correction x \<and> \<not> is_prediction x"
    using assms settingsUpdatedCb_frame
    by (auto simp add: ins_callback_def split: option.splits)
qed


lemma ins_run_unfold:
  assumes "ins_callback i (if gyroBiasSettingsUpdated s
                           then s\<lparr>gyroBiasSettingsUpdated := False\<rparr> else s) = (cP, s1)"
    and "ins_measurements od i (publish_nav_attitude lib i s1) = (c2, s3, sm, N, v)"
  shows "ins_run lib od i s =
         (0,
          (if gyroBiasSettingsUpdated s then [INSSetGyroBias (deg2rad_vec (GyrosBias s))] else [])
            @ cP
            @ [INSStatePrediction (ins_gyros i (GyrosBias s) s1) (Accels i) (ins_dT i),
               INSCovariancePrediction (ins_dT i)]
            @ c2
            @ (if sm \<noteq> {}
               then [INSCorrection (Magnetometer i) N v (BaroAltitude i + baroOffset s3) sm]
               else []),
          (if BiasCorrectGyro (attitudeSettings s3) \<and> \<not> gyroBiasSettingsUpdated s3
           then s3\<lparr>PositionActual := Nav_Pos i, VelocityActual := Nav_Vel i,
                   GyrosBias := rad2deg_vec (Nav_gyro_bias i)\<rparr>
           else s3\<lparr>PositionActual := Nav_Pos i, VelocityActual := Nav_Vel i\<rparr>))"
proof (cases "gyroBiasSettingsUpdated s")
  case True
  then have cb: "ins_callback i (s\<lparr>gyroBiasSettingsUpdated := False\<rparr>) = (cP, s1)"
    using assms(1) by simp
  show ?thesis using True cb assms(2) by (simp add: ins_run_def Let_def)
next
  case False
  then have cb: "ins_callback i s = (cP, s1)" using assms(1) by simp
  show ?thesis using False cb assms(2) by (simp add: ins_run_def Let_def)
qed

lemmas ins_eval_defs =
  updateAttitudeINSGPS_def ins_clear_updated_def ins_gather_def ins_alarm_def ins_run_def
  ins_measurements_def publish_nav_attitude_def ins_dT_def ins_gyros_def ins_init_step_def
  ins_callback_def
  ins_init_indoor_def ins_init_outdoor_def ins_init_predict_def ins_set_vars_def
  initial_attitude_def attitude_quat_def deg2rad_vec_def rad2deg_vec_def getNED_def
  float_of_uint32_def float_of_int32_def settingsUpdatedCb_def Let_def

lemmas example_defs =
  base_cycle_def zero_state_def unit_conversions_def zurich_home_def zurich_fix_def
  zurich_objects_def override_objects_def running_state_def override_state_def override_cycle_def









lemma ins_gather_gps:
  "gps_updated (ins_gather od i s) \<Longrightarrow>
     7 \<le> Satellites (GPSPosition i) \<and> PDOP (GPSPosition i) \<le> 4 \<and> Set (homeLocation s)"
  by (simp add: ins_gather_def split: prod.splits)

lemma ins_init_step_calls:
  assumes "ins_init_step lib od i s = (r, calls, s')"
  shows "\<forall>c \<in> set calls. \<not> is_correction c"
    and "NEDPosition s' = NEDPosition s"
  using assms
  by (auto simp add: ins_init_step_def ins_init_indoor_def ins_init_outdoor_def
      ins_init_predict_def ins_set_vars_def publish_nav_attitude_frame Let_def
      split: if_splits prod.splits)

lemma corrects_position_is_correction: "corrects_position c \<Longrightarrow> is_correction c"
  by (cases c) simp_all

lemma ins_run_position:
  assumes "ins_run lib True i s = (r, calls, s')"
  shows "(\<exists>c \<in> set calls. corrects_position c) \<Longrightarrow> gps_updated s"
    and "\<not> gps_updated s \<Longrightarrow> NEDPosition s' = NEDPosition s"
proof -
  let ?s0 = "if gyroBiasSettingsUpdated s then s\<lparr>gyroBiasSettingsUpdated := False\<rparr> else s"
  obtain cP s1 where cb: "ins_callback i ?s0 = (cP, s1)" by (metis prod.exhaust)
  obtain c2 s3 sm N v where m:
    "ins_measurements True i (publish_nav_attitude lib i s1) = (c2, s3, sm, N, v)"
    by (metis prod_cases5)
  note u = ins_run_unfold [OF cb m]
  note f = ins_callback_frame [OF cb]
  have g: "gps_updated (publish_nav_attitude lib i s1) = gps_updated s"
    using f(3) by (simp add: publish_nav_attitude_frame)
  have n: "NEDPosition (publish_nav_attitude lib i s1) = NEDPosition s"
    using f(5) by (simp add: publish_nav_attitude_frame)
  note p = ins_measurements_position [OF m]
  have q: "\<forall>c \<in> set c2. \<not> corrects_position c"
    using ins_measurements_calls [OF m] corrects_position_is_correction by blast
  have qP: "\<forall>c \<in> set cP. \<not> corrects_position c"
    using f(9) corrects_position_is_correction by blast
  show "gps_updated s" if "\<exists>c \<in> set calls. corrects_position c"
    using that assms u p(1) q qP g by (auto split: if_splits)
  show "NEDPosition s' = NEDPosition s" if "\<not> gps_updated s"
    using that assms u p(2) g n by (auto split: if_splits)
qed

text \<open>
  C5. In an outdoor cycle, a correction that uses the GPS position (its mask has
  \<open>POS_SENSORS\<close>) is made only when the fix has at least 7 satellites, a PDOP of at
  most 4.0 and the home location is set. With 6 satellites no such correction is made,
  whether or not a position arrived on the queue, and the published NED position is not
  written.
\<close>

theorem ins_gps_position_requirement:
  assumes "updateAttitudeINSGPS lib fr True i s = (r, calls, s')"
  shows "((\<exists>c \<in> set calls. corrects_position c) \<longrightarrow>
            7 \<le> Satellites (GPSPosition i) \<and> PDOP (GPSPosition i) \<le> 4 \<and> Set (homeLocation s))
         \<and> (Satellites (GPSPosition i) = 6 \<longrightarrow>
              (\<forall>c \<in> set calls. \<not> corrects_position c) \<and> NEDPosition s' = NEDPosition s)"
proof (cases "cycle_runs i \<and> \<not> fr")
  case False
  then have "calls = [] \<and> NEDPosition s' = NEDPosition s"
    using assms
    by (auto simp add: updateAttitudeINSGPS_def cycle_runs_def Let_def ins_clear_updated_def
        split: if_splits)
  then show ?thesis by simp
next
  case True
  let ?s1 = "if inited s then ins_clear_updated s else s"
  let ?s2 = "ins_alarm True i (ins_gather True i ?s1)"
  have h: "homeLocation ?s1 = homeLocation s" and n1: "NEDPosition ?s1 = NEDPosition s"
    by (simp_all add: ins_clear_updated_frame)
  have n2: "NEDPosition ?s2 = NEDPosition s"
    by (simp add: ins_alarm_frame ins_gather_frame ins_clear_updated_frame)
  have req: "gps_updated ?s2 \<Longrightarrow>
      7 \<le> Satellites (GPSPosition i) \<and> PDOP (GPSPosition i) \<le> 4 \<and> Set (homeLocation s)"
    using ins_gather_gps [of True i ?s1] h by (simp add: ins_alarm_frame)
  have u: "(if \<not> inited ?s2 \<and> mag_updated ?s2 \<and> baro_updated ?s2 \<and> (gps_updated ?s2 \<or> \<not> True)
            then ins_init_step lib True i ?s2
            else if \<not> inited ?s2 then (0, [], ?s2)
            else ins_run lib True i ?s2) = (r, calls, s')"
    using assms True updateAttitudeINSGPS_runs [of i lib True s] by (simp add: Let_def)
  have A: "gps_updated ?s2" if "\<exists>c \<in> set calls. corrects_position c"
  proof (cases "\<not> inited ?s2")
    case True
    then have "\<forall>c \<in> set calls. \<not> is_correction c"
      using u ins_init_step_calls(1) [of lib True i ?s2 r calls s']
      by (auto split: if_splits)
    then show ?thesis using that by (auto dest: corrects_position_is_correction)
  next
    case False
    then have "ins_run lib True i ?s2 = (r, calls, s')" using u by simp
    then show ?thesis using that ins_run_position(1) by blast
  qed
  have B: "NEDPosition s' = NEDPosition s" if "\<not> gps_updated ?s2"
  proof (cases "\<not> inited ?s2")
    case True
    then show ?thesis
      using u n2 ins_init_step_calls(2) [of lib True i ?s2 r calls s']
      by (auto split: if_splits)
  next
    case False
    then have "ins_run lib True i ?s2 = (r, calls, s')" using u by simp
    then show ?thesis using that n2 ins_run_position(2) by metis
  qed
  show ?thesis
  proof (intro conjI impI)
    assume "\<exists>c \<in> set calls. corrects_position c"
    then show "7 \<le> Satellites (GPSPosition i)" "PDOP (GPSPosition i) \<le> 4" "Set (homeLocation s)"
      using A req by blast+
  next
    assume six: "Satellites (GPSPosition i) = 6"
    then have ng: "\<not> gps_updated ?s2" using req by auto
    then show "\<forall>c \<in> set calls. \<not> corrects_position c" using A by blast
    show "NEDPosition s' = NEDPosition s" using ng B by blast
  qed
qed

lemma gps_cycle_corrects:
  "\<exists>c \<in> set (fst (snd (updateAttitudeINSGPS unit_conversions False True gps_cycle override_state))).
     corrects_position c"
  by (simp add: gps_cycle_def ins_eval_defs example_defs)

theorem ins_gps_position_requirement_witness:
  "(\<exists>c \<in> set (fst (snd (updateAttitudeINSGPS unit_conversions False True gps_cycle override_state))).
      corrects_position c)
   \<and> 7 \<le> Satellites (GPSPosition gps_cycle) \<and> PDOP (GPSPosition gps_cycle) \<le> 4
   \<and> Set (homeLocation override_state)
   \<and> gps_rx gps_cycle_6 \<and> Satellites (GPSPosition gps_cycle_6) = 6
   \<and> filter corrects_position
         (fst (snd (updateAttitudeINSGPS unit_conversions False True gps_cycle_6 override_state))) = []
   \<and> NEDPosition (snd (snd (updateAttitudeINSGPS unit_conversions False True gps_cycle_6 override_state)))
       = NEDPosition override_state"
proof -
  have six: "Satellites (GPSPosition gps_cycle_6) = 6" "gps_rx gps_cycle_6"
    by (simp_all add: gps_cycle_6_def base_cycle_def zurich_fix_def)
  show ?thesis
    using gps_cycle_corrects six
      ins_gps_position_requirement [of unit_conversions False gps_cycle override_state
        "fst (updateAttitudeINSGPS unit_conversions False True gps_cycle override_state)"
        "fst (snd (updateAttitudeINSGPS unit_conversions False True gps_cycle override_state))"
        "snd (snd (updateAttitudeINSGPS unit_conversions False True gps_cycle override_state))"]
      ins_gps_position_requirement [of unit_conversions False gps_cycle_6 override_state
        "fst (updateAttitudeINSGPS unit_conversions False True gps_cycle_6 override_state)"
        "fst (snd (updateAttitudeINSGPS unit_conversions False True gps_cycle_6 override_state))"
        "snd (snd (updateAttitudeINSGPS unit_conversions False True gps_cycle_6 override_state))"]
    by (simp add: filter_empty_conv)
qed

lemma run_INSGPS_append:
  "run_INSGPS lib (cs @ ds) s =
     (case run_INSGPS lib cs s of (calls, s1) \<Rightarrow>
        case run_INSGPS lib ds s1 of (calls', s2) \<Rightarrow> (calls @ calls', s2))"
  by (induction cs arbitrary: s) (auto split: prod.splits)

lemma run_INSGPS_snoc:
  "snd (run_INSGPS lib (cs @ [(fr, od, i)]) s) =
     snd (snd (updateAttitudeINSGPS lib fr od i (snd (run_INSGPS lib cs s))))"
  by (simp add: run_INSGPS_append split: prod.splits)

text \<open>One cycle without a barometer sample, in a filter that has not begun to initialise.\<close>

lemma stalled_step:
  assumes "\<not> inited s" and "init_stage s = 0" and "\<not> baro_updated s" and "\<not> baro_rx i"
    and "updateAttitudeINSGPS lib fr od i s = (r, calls, s')"
  shows "\<not> inited s'" and "init_stage s' = 0" and "\<not> baro_updated s'" and "calls = []"
    and "cycle_runs i \<and> \<not> fr \<Longrightarrow> AttitudeAlarm s' = SYSTEMALARMS_ALARM_ERROR \<and> r = 0"
  using assms
  by (auto simp add: updateAttitudeINSGPS_def cycle_runs_def Let_def ins_clear_updated_def
      ins_gather_def ins_alarm_def split: if_splits prod.splits)

lemma stalled_run:
  assumes "\<forall>c \<in> set cs. \<not> baro_rx (snd (snd c))"
    and "\<not> inited s" and "init_stage s = 0" and "\<not> baro_updated s"
  shows "\<not> inited (snd (run_INSGPS lib cs s)) \<and> init_stage (snd (run_INSGPS lib cs s)) = 0
         \<and> \<not> baro_updated (snd (run_INSGPS lib cs s)) \<and> fst (run_INSGPS lib cs s) = []"
  using assms
proof (induction cs arbitrary: s)
  case Nil
  then show ?case by simp
next
  case (Cons c cs)
  obtain fr od i where c: "c = (fr, od, i)" by (metis prod_cases3)
  obtain r calls s1 where u: "updateAttitudeINSGPS lib fr od i s = (r, calls, s1)"
    by (metis prod_cases3)
  have nb: "\<not> baro_rx i" using Cons.prems(1) c by simp
  note st = stalled_step [OF Cons.prems(2,3,4) nb u]
  have "\<forall>c \<in> set cs. \<not> baro_rx (snd (snd c))" using Cons.prems(1) by simp
  from Cons.IH [OF this st(1) st(2) st(3)] show ?case
    using c u st(4) by (simp split: prod.splits)
qed

text \<open>
  C6, as the code has it. In a run of cycles none of which receives a barometer sample,
  begun with the filter not initialised, at stage 0 and with no barometer update pending,
  the filter stays uninitialised and at stage 0, whatever the length of the run. Every cycle
  of the run that is not a first run and gets past the handle check and the wait for gyro
  and accel sets the attitude alarm to error.
\<close>

theorem ins_init_stalls_without_baro:
  assumes "\<forall>c \<in> set cs. \<not> baro_rx (snd (snd c))"
    and "\<not> inited s" and "init_stage s = 0" and "\<not> baro_updated s"
  shows "\<not> inited (snd (run_INSGPS lib cs s)) \<and> init_stage (snd (run_INSGPS lib cs s)) = 0
         \<and> (\<forall>k < length cs. cycle_runs (snd (snd (cs ! k))) \<and> \<not> fst (cs ! k) \<longrightarrow>
               AttitudeAlarm (snd (run_INSGPS lib (take (Suc k) cs) s)) = SYSTEMALARMS_ALARM_ERROR)"
proof (intro conjI allI impI)
  show "\<not> inited (snd (run_INSGPS lib cs s))" "init_stage (snd (run_INSGPS lib cs s)) = 0"
    using stalled_run [OF assms, of lib] by simp_all
next
  fix k
  assume k: "k < length cs" and run: "cycle_runs (snd (snd (cs ! k))) \<and> \<not> fst (cs ! k)"
  obtain fr od i where c: "cs ! k = (fr, od, i)" by (metis prod_cases3)
  let ?s = "snd (run_INSGPS lib (take k cs) s)"
  have pre: "\<forall>c \<in> set (take k cs). \<not> baro_rx (snd (snd c))"
    using assms(1) by (meson in_set_takeD)
  have st: "\<not> inited ?s" "init_stage ?s = 0" "\<not> baro_updated ?s"
    using stalled_run [OF pre assms(2,3,4), of lib] by simp_all
  have nb: "\<not> baro_rx i"
    using assms(1) k c by (metis nth_mem snd_conv)
  obtain r calls s1 where u: "updateAttitudeINSGPS lib fr od i ?s = (r, calls, s1)"
    by (metis prod_cases3)
  have "AttitudeAlarm s1 = SYSTEMALARMS_ALARM_ERROR"
    using stalled_step(5) [OF st nb u] run c by simp
  moreover have "take (Suc k) cs = take k cs @ [(fr, od, i)]"
    using k c by (simp add: take_Suc_conv_app_nth)
  ultimately show "AttitudeAlarm (snd (run_INSGPS lib (take (Suc k) cs) s)) = SYSTEMALARMS_ALARM_ERROR"
    using u by (simp add: run_INSGPS_snoc)
qed

lemma loaded_state_fields:
  "\<not> inited loaded_state" "init_stage loaded_state = 0"
  "init_ready False ready_cycle loaded_state"
  "\<not> baro_updated loaded_state"
  by (simp_all add: loaded_state_def ready_cycle_def init_ready_def cycle_runs_def
      settingsUpdatedCb_def Let_def example_defs)

lemma mag_cycle_fields:
  "\<not> baro_rx mag_cycle" "mag_rx mag_cycle" "cycle_runs mag_cycle"
  by (simp_all add: mag_cycle_def base_cycle_def cycle_runs_def)

lemma mag_cycle_mag_updated:
  "mag_updated (snd (snd (updateAttitudeINSGPS unit_conversions False False mag_cycle loaded_state)))"
  by (simp add: ins_eval_defs example_defs loaded_state_def mag_cycle_def)

lemma ready_cycle_leaves_stage_0:
  "init_stage (snd (snd (updateAttitudeINSGPS unit_conversions False False ready_cycle loaded_state))) = 1"
  by (simp add: ins_eval_defs example_defs loaded_state_def ready_cycle_def)

theorem ins_init_stalls_without_baro_witness:
  "\<not> baro_rx mag_cycle \<and> mag_rx mag_cycle \<and> cycle_runs mag_cycle
   \<and> \<not> inited loaded_state \<and> init_stage loaded_state = 0 \<and> \<not> baro_updated loaded_state
   \<and> mag_updated (snd (snd (updateAttitudeINSGPS unit_conversions False False mag_cycle loaded_state)))
   \<and> \<not> inited (snd (run_INSGPS unit_conversions (replicate 12 (False, False, mag_cycle)) loaded_state))
   \<and> init_stage (snd (run_INSGPS unit_conversions (replicate 12 (False, False, mag_cycle)) loaded_state)) = 0
   \<and> AttitudeAlarm (snd (run_INSGPS unit_conversions (replicate 12 (False, False, mag_cycle)) loaded_state))
       = SYSTEMALARMS_ALARM_ERROR
   \<and> init_stage (snd (snd (updateAttitudeINSGPS unit_conversions False False ready_cycle loaded_state))) = 1"
proof -
  let ?cs = "replicate 12 (False, False, mag_cycle)"
  have h: "\<forall>c \<in> set ?cs. \<not> baro_rx (snd (snd c))"
    by (simp add: mag_cycle_fields)
  note t = ins_init_stalls_without_baro
    [OF h loaded_state_fields(1) loaded_state_fields(2) loaded_state_fields(4), of unit_conversions]
  have st: "\<not> inited (snd (run_INSGPS unit_conversions ?cs loaded_state))"
    "init_stage (snd (run_INSGPS unit_conversions ?cs loaded_state)) = 0"
    using t by simp_all
  have al: "\<forall>k < length ?cs. cycle_runs (snd (snd (?cs ! k))) \<and> \<not> fst (?cs ! k) \<longrightarrow>
      AttitudeAlarm (snd (run_INSGPS unit_conversions (take (Suc k) ?cs) loaded_state))
        = SYSTEMALARMS_ALARM_ERROR"
    using t by blast
  have "(11 :: nat) < length ?cs" by simp
  then have "cycle_runs (snd (snd (?cs ! 11))) \<and> \<not> fst (?cs ! 11) \<longrightarrow>
      AttitudeAlarm (snd (run_INSGPS unit_conversions (take (Suc 11) ?cs) loaded_state))
        = SYSTEMALARMS_ALARM_ERROR"
    using al by blast
  then have a: "AttitudeAlarm (snd (run_INSGPS unit_conversions ?cs loaded_state))
        = SYSTEMALARMS_ALARM_ERROR"
    by (simp add: mag_cycle_fields)
  show ?thesis
    using st a mag_cycle_mag_updated ready_cycle_leaves_stage_0
    by (simp add: mag_cycle_fields loaded_state_fields)
qed

text \<open>
  C6 as it is written fails: the barometer never delivers, and yet the first-run cycle leaves
  the alarm as it was before the cycle (ok), and a later cycle whose wait for the gyro
  times out sets it to warning.
\<close>

theorem ins_error_alarm_every_cycle_counterexample:
  "\<not> baro_rx base_cycle \<and> gyro_rx base_cycle \<and> accel_rx base_cycle
   \<and> AttitudeAlarm (snd (run_INSGPS unit_conversions [(True, False, base_cycle)] zero_state))
       = SYSTEMALARMS_ALARM_OK
   \<and> AttitudeAlarm (snd (run_INSGPS unit_conversions
         [(True, False, base_cycle), (False, False, base_cycle)] zero_state))
       = SYSTEMALARMS_ALARM_ERROR
   \<and> AttitudeAlarm (snd (run_INSGPS unit_conversions
         [(True, False, base_cycle), (False, False, base_cycle),
          (False, False, base_cycle\<lparr>gyro_rx := False\<rparr>)] zero_state))
       = SYSTEMALARMS_ALARM_WARNING"
  by (simp add: ins_eval_defs base_cycle_def zero_state_def)




















subsection \<open>The quaternion of the complementary filter\<close>

lemma unit_quat_Fin:
  "unit_quat (Fin a, Fin b, Fin c, Fin d) \<longleftrightarrow> a * a + b * b + c * c + d * d = 1 \<and> 0 \<le> a"
  by (simp add: unit_quat_def)

lemma unit_quat_identity: "unit_quat (Fin 1, Fin 0, Fin 0, Fin 0)"
  by (simp add: unit_quat_def)

lemma normalised_real:
  fixes a b c d :: real
  assumes "\<not> sqrt (a * a + b * b + c * c + d * d) < 1 / 1000"
  shows "a / sqrt (a * a + b * b + c * c + d * d) * (a / sqrt (a * a + b * b + c * c + d * d))
       + b / sqrt (a * a + b * b + c * c + d * d) * (b / sqrt (a * a + b * b + c * c + d * d))
       + c / sqrt (a * a + b * b + c * c + d * d) * (c / sqrt (a * a + b * b + c * c + d * d))
       + d / sqrt (a * a + b * b + c * c + d * d) * (d / sqrt (a * a + b * b + c * c + d * d)) = 1"
proof -
  let ?S = "a * a + b * b + c * c + d * d"
  let ?m = "sqrt ?S"
  have S0: "0 \<le> ?S" by simp
  have pos: "0 < ?m" using assms by linarith
  have sq: "?m * ?m = ?S" using S0 by simp
  have Sn: "?S \<noteq> 0" using pos by auto
  have each: "x / ?m * (x / ?m) = x * x / ?S" for x
    by (simp only: times_divide_times_eq sq)
  have "a / ?m * (a / ?m) + b / ?m * (b / ?m) + c / ?m * (c / ?m) + d / ?m * (d / ?m)
        = (a * a + b * b + c * c + d * d) / ?S"
    by (simp only: each add_divide_distrib)
  also have "\<dots> = 1" using Sn by simp
  finally show ?thesis .
qed

lemma cf_renormalize_Fin:
  "unit_quat (snd (cf_renormalize (Fin a, Fin b, Fin c, Fin d)))"
proof -
  let ?S = "a * a + b * b + c * c + d * d"
  have S0: "\<not> ?S < 0" by (simp add: not_less)
  have abs: "\<bar>sqrt ?S\<bar> = sqrt ?S" by simp
  show ?thesis
  proof (cases "sqrt ?S < 1 / 1000")
    case True
    then show ?thesis
      using S0 by (simp add: cf_renormalize_def Let_def sqrtf_def fabs_def unit_quat_def)
  next
    case False
    have pos: "0 < sqrt ?S" using False by linarith
    have m: "sqrt ?S \<noteq> 0" using pos by linarith
    show ?thesis
    proof (cases "a < 0")
      case True
      then have "0 \<le> - a" by simp
      then have na: "0 \<le> - a / sqrt ?S" using pos by (rule divide_nonneg_pos)
      show ?thesis
        using True False S0 m na normalised_real [of "- a" "- b" "- c" "- d"]
        by (simp add: cf_renormalize_def Let_def sqrtf_def fabs_def unit_quat_def)
    next
      case an: False
      then have "0 \<le> a" by simp
      then have na: "0 \<le> a / sqrt ?S" using pos by (rule divide_nonneg_pos)
      show ?thesis
        using an False S0 m na normalised_real [of a b c d]
        by (simp add: cf_renormalize_def Let_def sqrtf_def fabs_def unit_quat_def)
    qed
  qed
qed

lemma sqrtf_NaN: "sqrtf NaN = NaN"
  by (simp add: sqrtf_def)

lemma cf_renormalize_unit: "unit_quat (snd (cf_renormalize q))"
proof -
  obtain a b c d where q: "q = (a, b, c, d)" by (metis prod_cases4)
  show ?thesis
  proof (cases "\<exists>ra rb rc rd. a = Fin ra \<and> b = Fin rb \<and> c = Fin rc \<and> d = Fin rd")
    case True
    then show ?thesis using q cf_renormalize_Fin by auto
  next
    case False
    then have "a = NaN \<or> b = NaN \<or> c = NaN \<or> d = NaN"
      by (metis float.exhaust)
    then have "snd (cf_renormalize q) = (Fin 1, Fin 0, Fin 0, Fin 0)"
      unfolding q cf_renormalize_def Let_def
      by (cases a; cases b; cases c; cases d) (auto simp add: sqrtf_NaN fabs_def)
    then show ?thesis by (simp add: unit_quat_identity)
  qed
qed

text \<open>
  What the module decides by itself about the published quaternion: a later cycle of the
  complementary filter that runs publishes a quaternion of norm 1 with a scalar part that
  is not negative, whatever the sensors deliver. The first-run cycle publishes what
  \<^verbatim>\<open>RPY2Quaternion\<close> returns, and the navigation filter what the INS library
  holds in \<^verbatim>\<open>Nav->q\<close>; both are copied as they are.
\<close>

lemma complementary_publishes_unit_quat:
  assumes "(gyro_rx i \<and> accel_rx i) \<or> AttitudeActualReadOnly i"
  shows "fst (updateAttitudeComplementary lib False i s) = 0
         \<and> unit_quat (attitude_quat (AttitudeActual (snd (updateAttitudeComplementary lib False i s))))"
proof -
  let ?s6 = "cf_filter_inputs i s"
  let ?dT = "float_of_uint32 (PIOS_DELAY_DiffuS i) / 1000000"
  let ?q = "attitude_quat (AttitudeActual ?s6)"
  let ?s7 = "?s6\<lparr>mag_err := cf_mag_err lib i ?q ?s6\<rparr>"
  let ?s8 = "?s7\<lparr>GyrosBias := cf_bias_update (cf_accel_err ?s6) ?s7\<rparr>"
  let ?g = "cf_corrected_gyros i ?dT (cf_accel_err ?s6) ?s8"
  obtain m qn where r: "cf_integrate ?q ?g ?dT = (m, qn)" by (metis prod.exhaust)
  have "unit_quat (snd (cf_integrate ?q ?g ?dT))"
    by (simp add: cf_integrate_def Let_def cf_renormalize_unit split: prod.splits)
  then have u: "unit_quat qn" using r by simp
  obtain a b c d where qn: "qn = (a, b, c, d)" by (metis prod_cases4)
  have att: "attitude_quat (cf_attitude lib qn A) = qn" for A
    by (simp add: qn cf_attitude_def attitude_quat_def split: prod.splits)
  have pt: "AttitudeActual (cf_passthrough i S) = AttitudeActual S" for S
    by (simp add: cf_passthrough_def Let_def)
  have "updateAttitudeComplementary lib False i s = cf_update lib i s"
    using assms by (auto simp add: updateAttitudeComplementary_def)
  moreover have "fst (cf_update lib i s) = 0"
    by (simp add: cf_update_def Let_def split: prod.splits)
  moreover have "attitude_quat (AttitudeActual (snd (cf_update lib i s))) = qn"
    using r by (simp add: cf_update_def Let_def pt att del: zero_float one_float numeral_float)
  ultimately show ?thesis using u by simp
qed

end
